theory Spec2Isabelle
  imports Complex_Main
begin

section \<open>Numbers\<close>

text \<open>
  The component computes with JavaScript numbers. A finite number is modelled as a
  real (rounding and overflow of the double format are not modelled). The only
  operation of the component that leaves the finite numbers on finite operands is the
  division of the normalisation loop, so its operands and results are \<open>jsnum\<close> values:
  \<open>Infinity\<close> stands for either infinity (the sign of a zero divisor is not tracked),
  \<open>NaN\<close> for not-a-number.
\<close>

datatype jsnum = Fin real | Infinity | NaN

fun jdiv :: "jsnum \<Rightarrow> jsnum \<Rightarrow> jsnum" where
  "jdiv (Fin a) (Fin b) =
     (if b \<noteq> 0 then Fin (a / b) else if a = 0 then NaN else Infinity)"
| "jdiv (Fin a) Infinity = Fin 0"
| "jdiv Infinity (Fin b) = Infinity"
| "jdiv Infinity Infinity = NaN"
| "jdiv NaN d = NaN"
| "jdiv n NaN = NaN"

fun isFinite :: "jsnum \<Rightarrow> bool" where
  "isFinite (Fin a) = True"
| "isFinite Infinity = False"
| "isFinite NaN = False"

text \<open>Reading an array of numbers: an index past the end reads \<open>undefined\<close>, which
  arithmetic turns into \<open>NaN\<close>.\<close>

definition arr_get :: "jsnum list \<Rightarrow> nat \<Rightarrow> jsnum" where
  "arr_get m i = (if i < length m then m ! i else NaN)"

text \<open>Writing \<open>c[n] = v\<close>: inside the array it overwrites, at index \<open>length c\<close> it
  appends. \<open>multmm\<close> writes the indices 0 to 8 in increasing order, so no write
  lands further out.\<close>

definition arr_set :: "'a list \<Rightarrow> nat \<Rightarrow> 'a \<Rightarrow> 'a list" where
  "arr_set c n v = (if n < length c then c[n := v] else c @ [v])"

section \<open>Data model\<close>

text \<open>\<open>Corner\<close> is the interface \<open>{x, y}\<close>; the fields are named \<open>px\<close> and \<open>py\<close> here.\<close>

record Corner =
  px :: real
  py :: real

record Points =
  topLeft :: Corner
  topRight :: Corner
  bottomRight :: Corner
  bottomLeft :: Corner

section \<open>The solver: the functions nested in computeCssMatrix\<close>

text \<open>The nested functions are applied to the nine- and three-element arrays built
  inside \<open>computeCssMatrix\<close> only, so every index below is in range. The test
  \<open>det === 0\<close> of \<open>solve\<close> is made here on the exact determinant; the program makes it
  on the double it has computed, which rounding can make zero or non-zero where the
  exact determinant is not.\<close>

definition solve :: "real list \<Rightarrow> real list \<Rightarrow> real list option" where
  "solve A b =
     (let det =
            A ! 0 * (A ! 4 * A ! 8 - A ! 5 * A ! 7) -
            A ! 1 * (A ! 3 * A ! 8 - A ! 5 * A ! 6) +
            A ! 2 * (A ! 3 * A ! 7 - A ! 4 * A ! 6)
      in if det = 0 then None
         else
           let invDet = 1 / det;
               adjA = map (\<lambda>val. val * invDet)
                 [A ! 4 * A ! 8 - A ! 5 * A ! 7,
                  A ! 2 * A ! 7 - A ! 1 * A ! 8,
                  A ! 1 * A ! 5 - A ! 2 * A ! 4,
                  A ! 5 * A ! 6 - A ! 3 * A ! 8,
                  A ! 0 * A ! 8 - A ! 2 * A ! 6,
                  A ! 2 * A ! 3 - A ! 0 * A ! 5,
                  A ! 3 * A ! 7 - A ! 4 * A ! 6,
                  A ! 1 * A ! 6 - A ! 0 * A ! 7,
                  A ! 0 * A ! 4 - A ! 1 * A ! 3]
           in Some
                [adjA ! 0 * b ! 0 + adjA ! 1 * b ! 1 + adjA ! 2 * b ! 2,
                 adjA ! 3 * b ! 0 + adjA ! 4 * b ! 1 + adjA ! 5 * b ! 2,
                 adjA ! 6 * b ! 0 + adjA ! 7 * b ! 1 + adjA ! 8 * b ! 2])"

definition adj :: "real list \<Rightarrow> real list" where
  "adj m =
     [m ! 4 * m ! 8 - m ! 5 * m ! 7,
      m ! 2 * m ! 7 - m ! 1 * m ! 8,
      m ! 1 * m ! 5 - m ! 2 * m ! 4,
      m ! 5 * m ! 6 - m ! 3 * m ! 8,
      m ! 0 * m ! 8 - m ! 2 * m ! 6,
      m ! 2 * m ! 3 - m ! 0 * m ! 5,
      m ! 3 * m ! 7 - m ! 4 * m ! 6,
      m ! 1 * m ! 6 - m ! 0 * m ! 7,
      m ! 0 * m ! 4 - m ! 1 * m ! 3]"

text \<open>The three nested \<open>for\<close> loops of \<open>multmm\<close>, each over 0, 1, 2.\<close>

definition multmm :: "real list \<Rightarrow> real list \<Rightarrow> real list" where
  "multmm a b =
     fold (\<lambda>i c.
       fold (\<lambda>j c.
         let cij = fold (\<lambda>k cij. cij + a ! (3 * i + k) * b ! (3 * k + j)) [0..<3] 0
         in arr_set c (3 * i + j) cij) [0..<3] c) [0..<3] []"

definition basisToPoints :: "Corner \<Rightarrow> Corner \<Rightarrow> Corner \<Rightarrow> Corner \<Rightarrow> real list option" where
  "basisToPoints p1 p2 p3 p4 =
     (let m = [px p1, px p2, px p3, py p1, py p2, py p3, 1, 1, 1];
          v = [px p4, py p4, 1]
      in case solve m v of
           None \<Rightarrow> None
         | Some s \<Rightarrow>
             Some
               [m ! 0 * s ! 0, m ! 1 * s ! 1, m ! 2 * s ! 2,
                m ! 3 * s ! 0, m ! 4 * s ! 1, m ! 5 * s ! 2,
                m ! 6 * s ! 0, m ! 7 * s ! 1, m ! 8 * s ! 2])"

text \<open>The loop \<open>for (i = 0; i < m3.length; i += 1) m3[i] /= m3[8]\<close>. The divisor is
  read from the array at every iteration.\<close>

function normalize_from :: "nat \<Rightarrow> jsnum list \<Rightarrow> jsnum list" where
  "normalize_from i m3 =
     (if i < length m3
      then normalize_from (i + 1) (m3[i := jdiv (arr_get m3 i) (arr_get m3 8)])
      else m3)"
  by pat_completeness auto
termination
  by (relation "measure (\<lambda>(i, m3). length m3 - i)") auto

declare normalize_from.simps [simp del]

text \<open>The value of \<open>computeCssMatrix\<close> is a string: the empty string, or
  \<open>matrix3d(...)\<close> around the sixteen numbers joined by commas. The model keeps the
  sixteen numbers instead of their decimal rendering.\<close>

datatype css = Empty | Matrix3d "jsnum list"

datatype error = TypeError

text \<open>Reading \<open>.x\<close> of a missing array element throws; both calls of
  \<open>basisToPoints\<close> are evaluated before the test for \<open>null\<close>.\<close>

definition computeCssMatrix :: "Corner list \<Rightarrow> Corner list \<Rightarrow> error + css" where
  "computeCssMatrix srcPoints dstPoints =
     (if length srcPoints < 4 \<or> length dstPoints < 4 then Inl TypeError
      else
        case basisToPoints (srcPoints ! 0) (srcPoints ! 1) (srcPoints ! 2) (srcPoints ! 3) of
          None \<Rightarrow> Inr Empty
        | Some m1 \<Rightarrow>
           (case basisToPoints (dstPoints ! 0) (dstPoints ! 1) (dstPoints ! 2) (dstPoints ! 3) of
              None \<Rightarrow> Inr Empty
            | Some m2 \<Rightarrow>
                let m3 = normalize_from 0 (map Fin (multmm m2 (adj m1)))
                in Inr (Matrix3d
                     [m3 ! 0, m3 ! 3, Fin 0, m3 ! 6,
                      m3 ! 1, m3 ! 4, Fin 0, m3 ! 7,
                      Fin 0, Fin 0, Fin 1, Fin 0,
                      m3 ! 2, m3 ! 5, Fin 0, m3 ! 8])))"

section \<open>The component PerspectiveTransform\<close>

text \<open>The props and the state of the component that the persistence, auto-fit, matrix
  and drag code reads and writes. \<open>matrix\<close> holds the value of \<open>computeCssMatrix\<close>; its
  initial value is the empty string. The edit-mode flag and the keyboard listener touch
  neither the points, the matrix nor the store and are left out.\<close>

record Props =
  controlledPoints :: "Points option"
  storageKey :: "string option"

record State =
  points :: Points
  hasHydrated :: bool
  matrix :: css

text \<open>\<open>getBoundingClientRect()\<close> of the container.\<close>

record Rect =
  rect_left :: real
  rect_top :: real
  rect_width :: real
  rect_height :: real

type_synonym Storage = "string \<rightharpoonup> string"

definition defaultPoints :: Points where
  "defaultPoints =
     \<lparr>topLeft = \<lparr>px = 0, py = 0\<rparr>, topRight = \<lparr>px = 100, py = 0\<rparr>,
      bottomRight = \<lparr>px = 100, py = 100\<rparr>, bottomLeft = \<lparr>px = 0, py = 100\<rparr>\<rparr>"

definition initialState :: "Props \<Rightarrow> State" where
  "initialState props =
     \<lparr>points = (case controlledPoints props of Some p \<Rightarrow> p | None \<Rightarrow> defaultPoints),
      hasHydrated = False,
      matrix = Empty\<rparr>"

subsection \<open>Saving and loading\<close>

text \<open>The save effect. \<open>storageKey\<close> is tested for truthiness: a missing key and the
  empty string both count as no key. \<open>JSON.stringify\<close> is a parameter. A \<open>setItem\<close> that
  throws is caught and writes nothing; the model takes the write to succeed.\<close>

definition saveEffect :: "(Points \<Rightarrow> string) \<Rightarrow> Props \<Rightarrow> State \<Rightarrow> Storage \<Rightarrow> Storage" where
  "saveEffect JSON_stringify props st localStorage =
     (case storageKey props of
        None \<Rightarrow> localStorage
      | Some k \<Rightarrow>
          if k \<noteq> [] \<and> hasHydrated st
          then localStorage(k \<mapsto> JSON_stringify (points st))
          else localStorage)"

definition controlledEffect :: "Props \<Rightarrow> State \<Rightarrow> State" where
  "controlledEffect props st =
     (case controlledPoints props of
        Some p \<Rightarrow> st\<lparr>points := p\<rparr>
      | None \<Rightarrow> st)"

text \<open>What \<open>JSON.parse\<close> can return. The members of an object are kept in the order
  of the text; of two members with one name the later one is read.\<close>

datatype json =
    JNull
  | JBool bool
  | JNumber real
  | JString string
  | JArray "json list"
  | JObject "(string \<times> json) list"

fun truthy :: "json \<Rightarrow> bool" where
  "truthy JNull = False"
| "truthy (JBool b) = b"
| "truthy (JNumber n) = (n \<noteq> 0)"
| "truthy (JString s) = (s \<noteq> [])"
| "truthy (JArray xs) = True"
| "truthy (JObject kvs) = True"

text \<open>Reading a property by one of the four corner names: \<open>None\<close> is \<open>undefined\<close>.
  Only an object has such a property; reading it from \<open>null\<close> throws, which
  \<open>cornersPresent\<close> handles before it calls \<open>getProperty\<close>.\<close>

fun getProperty :: "json \<Rightarrow> string \<Rightarrow> json option" where
  "getProperty (JObject kvs) name = map_of (rev kvs) name"
| "getProperty j name = None"

definition present :: "json \<Rightarrow> string \<Rightarrow> bool" where
  "present parsed name = (case getProperty parsed name of None \<Rightarrow> False | Some v \<Rightarrow> truthy v)"

text \<open>The condition \<open>parsed.topLeft && parsed.topRight && parsed.bottomRight &&
  parsed.bottomLeft\<close>.\<close>

definition cornersPresent :: "json \<Rightarrow> error + bool" where
  "cornersPresent parsed =
     (case parsed of
        JNull \<Rightarrow> Inl TypeError
      | _ \<Rightarrow>
          Inr (present parsed ''topLeft'' \<and> present parsed ''topRight'' \<and>
               present parsed ''bottomRight'' \<and> present parsed ''bottomLeft''))"

text \<open>Lines 84 to 98 of the load effect: the value \<open>setPoints\<close> is called with, if it
  is called. \<open>JSON.parse\<close> is a parameter, \<open>None\<close> where it throws. Both a throwing
  parse and a throwing property read end in the \<open>catch\<close> block.\<close>

definition acceptStored :: "(string \<Rightarrow> json option) \<Rightarrow> string option \<Rightarrow> json option" where
  "acceptStored JSON_parse saved =
     (case saved of
        None \<Rightarrow> None
      | Some s \<Rightarrow>
          if s = [] then None
          else
            (case JSON_parse s of
               None \<Rightarrow> None
             | Some parsed \<Rightarrow>
                 (case cornersPresent parsed of
                    Inl e \<Rightarrow> None
                  | Inr ok \<Rightarrow> if ok then Some parsed else None)))"

text \<open>The load effect. The cast \<open>as Points\<close> is not checked when the program runs;
  \<open>asPoints\<close> is the parsed value read as Points.\<close>

definition loadEffect ::
  "(string \<Rightarrow> json option) \<Rightarrow> (json \<Rightarrow> Points) \<Rightarrow> Props \<Rightarrow> Storage \<Rightarrow> State \<Rightarrow> State" where
  "loadEffect JSON_parse asPoints props localStorage st =
     (case storageKey props of
        None \<Rightarrow> st
      | Some k \<Rightarrow>
          if controlledPoints props \<noteq> None \<or> k = [] then st
          else
            (case acceptStored JSON_parse (localStorage k) of
               None \<Rightarrow> st
             | Some parsed \<Rightarrow> st\<lparr>points := asPoints parsed\<rparr>)
            \<lparr>hasHydrated := True\<rparr>)"

subsection \<open>Auto-fit\<close>

text \<open>The callback of the ResizeObserver, as a function of the previous points.\<close>

definition resizeCallback :: "real \<Rightarrow> real \<Rightarrow> Points \<Rightarrow> Points" where
  "resizeCallback width height prevPoints =
     (if width > 0 \<and> height > 0
      then prevPoints
             \<lparr>topRight := \<lparr>px = width, py = 0\<rparr>,
              bottomRight := \<lparr>px = width, py = height\<rparr>,
              bottomLeft := \<lparr>px = 0, py = height\<rparr>\<rparr>
      else prevPoints)"

text \<open>The observer is installed unless the effect returns early.\<close>

definition autoFitActive :: "Props \<Rightarrow> Rect option \<Rightarrow> State \<Rightarrow> bool" where
  "autoFitActive props container st =
     (\<not> (controlledPoints props \<noteq> None \<or> hasHydrated st \<or> container = None))"

definition onResize :: "Props \<Rightarrow> Rect option \<Rightarrow> real \<Rightarrow> real \<Rightarrow> State \<Rightarrow> State" where
  "onResize props container width height st =
     (if autoFitActive props container st
      then st\<lparr>points := resizeCallback width height (points st)\<rparr>
      else st)"

subsection \<open>The matrix effect\<close>

definition srcCorners :: "Rect \<Rightarrow> Corner list" where
  "srcCorners rect =
     [\<lparr>px = 0, py = 0\<rparr>, \<lparr>px = rect_width rect, py = 0\<rparr>,
      \<lparr>px = rect_width rect, py = rect_height rect\<rparr>, \<lparr>px = 0, py = rect_height rect\<rparr>]"

definition dstCorners :: "Points \<Rightarrow> Corner list" where
  "dstCorners pts = [topLeft pts, topRight pts, bottomRight pts, bottomLeft pts]"

text \<open>Both arrays have four elements, so \<open>computeCssMatrix\<close> does not throw here
  (lemma \<open>computeCssMatrix_four\<close>).\<close>

definition matrixEffect :: "Rect option \<Rightarrow> State \<Rightarrow> State" where
  "matrixEffect container st =
     (case container of
        None \<Rightarrow> st
      | Some rect \<Rightarrow>
          if rect_width rect = 0 \<or> rect_height rect = 0 then st
          else
            (case computeCssMatrix (srcCorners rect) (dstCorners (points st)) of
               Inr transform \<Rightarrow> st\<lparr>matrix := transform\<rparr>
             | Inl e \<Rightarrow> st))"

subsection \<open>Dragging a corner\<close>

text \<open>\<open>handleDrag\<close> is attached to the control point of each key of the points, so
  \<open>corner\<close> is one of the four names.\<close>

datatype CornerName = TopLeft | TopRight | BottomRight | BottomLeft

text \<open>The object \<open>{...points, [corner]: c}\<close>.\<close>

fun setCorner :: "Points \<Rightarrow> CornerName \<Rightarrow> Corner \<Rightarrow> Points" where
  "setCorner pts TopLeft c = pts\<lparr>topLeft := c\<rparr>"
| "setCorner pts TopRight c = pts\<lparr>topRight := c\<rparr>"
| "setCorner pts BottomRight c = pts\<lparr>bottomRight := c\<rparr>"
| "setCorner pts BottomLeft c = pts\<lparr>bottomLeft := c\<rparr>"

fun getCorner :: "Points \<Rightarrow> CornerName \<Rightarrow> Corner" where
  "getCorner pts TopLeft = topLeft pts"
| "getCorner pts TopRight = topRight pts"
| "getCorner pts BottomRight = bottomRight pts"
| "getCorner pts BottomLeft = bottomLeft pts"

text \<open>\<open>onMove\<close> is created by \<open>handleDrag\<close> at mouse-down; \<open>pts\<close> is the \<open>points\<close> of
  the render in which the drag began. \<open>onPointsChange\<close> is called with the same
  \<open>updatedPoints\<close>.\<close>

definition updatedPoints :: "Rect \<Rightarrow> Points \<Rightarrow> CornerName \<Rightarrow> real \<Rightarrow> real \<Rightarrow> Points" where
  "updatedPoints rect pts corner clientX clientY =
     (let x = clientX - rect_left rect;
          y = clientY - rect_top rect
      in setCorner pts corner \<lparr>px = x, py = y\<rparr>)"

definition onMove :: "Rect option \<Rightarrow> Points \<Rightarrow> CornerName \<Rightarrow> real \<Rightarrow> real \<Rightarrow> State \<Rightarrow> State" where
  "onMove container pts corner clientX clientY st =
     (case container of
        None \<Rightarrow> st
      | Some rect \<Rightarrow> st\<lparr>points := updatedPoints rect pts corner clientX clientY\<rparr>)"

text \<open>\<open>handleDrag\<close> runs at mouse-down and registers \<open>onMove\<close> as the listener of the
  mouse moves that follow. Its value here is that listener: it keeps the \<open>points\<close> of
  the render in which \<open>handleDrag\<close> ran, and receives the container, the pointer
  position and the state at the time of each move.\<close>

definition handleDrag ::
  "State \<Rightarrow> CornerName \<Rightarrow> Rect option \<Rightarrow> real \<Rightarrow> real \<Rightarrow> State \<Rightarrow> State" where
  "handleDrag st corner =
     (\<lambda>container clientX clientY. onMove container (points st) corner clientX clientY)"

subsection \<open>Runs of the component\<close>

text \<open>A run is a sequence of effect and handler executions, each with the props and
  the container of the render it belongs to. Any order is allowed, which covers the
  order in which the framework schedules them.\<close>

datatype Event =
    SaveEffect
  | ControlledEffect
  | LoadEffect
  | MatrixEffect
  | Resize real real
  | MouseMove Points CornerName real real

record Env =
  JSON_parse :: "string \<Rightarrow> json option"
  JSON_stringify :: "Points \<Rightarrow> string"
  asPoints :: "json \<Rightarrow> Points"

fun step :: "Env \<Rightarrow> Props \<times> Rect option \<times> Event \<Rightarrow> State \<times> Storage \<Rightarrow> State \<times> Storage" where
  "step env (props, container, SaveEffect) (st, ls) =
     (st, saveEffect (JSON_stringify env) props st ls)"
| "step env (props, container, ControlledEffect) (st, ls) =
     (controlledEffect props st, ls)"
| "step env (props, container, LoadEffect) (st, ls) =
     (loadEffect (JSON_parse env) (asPoints env) props ls st, ls)"
| "step env (props, container, MatrixEffect) (st, ls) =
     (matrixEffect container st, ls)"
| "step env (props, container, Resize width height) (st, ls) =
     (onResize props container width height st, ls)"
| "step env (props, container, MouseMove pts corner clientX clientY) (st, ls) =
     (onMove container pts corner clientX clientY st, ls)"

definition run :: "Env \<Rightarrow> (Props \<times> Rect option \<times> Event) list \<Rightarrow> State \<times> Storage \<Rightarrow> State \<times> Storage" where
  "run env evs w = fold (step env) evs w"

text \<open>An environment for examples: no stored text parses, every points value is
  written as the same text.\<close>

definition exampleEnv :: Env where
  "exampleEnv =
     \<lparr>JSON_parse = (\<lambda>s. None), JSON_stringify = (\<lambda>p. ''points''),
      asPoints = (\<lambda>j. defaultPoints)\<rparr>"

section \<open>Notions used to state the properties\<close>

text \<open>Twice the signed area of the triangle of three corners; it is the determinant
  of the matrix \<open>solve\<close> receives from \<open>basisToPoints\<close>.\<close>

definition tri :: "Corner \<Rightarrow> Corner \<Rightarrow> Corner \<Rightarrow> real" where
  "tri p q r = px p * (py q - py r) - px q * (py p - py r) + px r * (py p - py q)"

definition collinear3 :: "Corner \<Rightarrow> Corner \<Rightarrow> Corner \<Rightarrow> bool" where
  "collinear3 p q r = (tri p q r = 0)"

definition noThreeCollinear :: "Corner list \<Rightarrow> bool" where
  "noThreeCollinear q =
     (length q = 4 \<and>
      \<not> collinear3 (q ! 0) (q ! 1) (q ! 2) \<and> \<not> collinear3 (q ! 0) (q ! 1) (q ! 3) \<and>
      \<not> collinear3 (q ! 0) (q ! 2) (q ! 3) \<and> \<not> collinear3 (q ! 1) (q ! 2) (q ! 3))"

definition det3 :: "real list \<Rightarrow> real" where
  "det3 A =
     A ! 0 * (A ! 4 * A ! 8 - A ! 5 * A ! 7) -
     A ! 1 * (A ! 3 * A ! 8 - A ! 5 * A ! 6) +
     A ! 2 * (A ! 3 * A ! 7 - A ! 4 * A ! 6)"

text \<open>The value of \<open>m3\<close> in \<open>computeCssMatrix\<close> before the normalisation loop, and after
  it; \<open>None\<close> where \<open>computeCssMatrix\<close> returns the empty string.\<close>

definition unnormalized :: "Corner list \<Rightarrow> Corner list \<Rightarrow> real list option" where
  "unnormalized srcPoints dstPoints =
     (case basisToPoints (srcPoints ! 0) (srcPoints ! 1) (srcPoints ! 2) (srcPoints ! 3) of
        None \<Rightarrow> None
      | Some m1 \<Rightarrow>
         (case basisToPoints (dstPoints ! 0) (dstPoints ! 1) (dstPoints ! 2) (dstPoints ! 3) of
            None \<Rightarrow> None
          | Some m2 \<Rightarrow> Some (multmm m2 (adj m1))))"

definition homography :: "Corner list \<Rightarrow> Corner list \<Rightarrow> jsnum list option" where
  "homography srcPoints dstPoints =
     (case unnormalized srcPoints dstPoints of
        None \<Rightarrow> None
      | Some m3 \<Rightarrow> Some (normalize_from 0 (map Fin m3)))"

text \<open>A 3x3 matrix in row-major order applied to a corner in homogeneous coordinates,
  and the perspective division, which is undefined where the third coordinate is zero.\<close>

definition hom3 :: "real list \<Rightarrow> Corner \<Rightarrow> real \<times> real \<times> real" where
  "hom3 h p =
     (h ! 0 * px p + h ! 1 * py p + h ! 2,
      h ! 3 * px p + h ! 4 * py p + h ! 5,
      h ! 6 * px p + h ! 7 * py p + h ! 8)"

definition applyH :: "real list \<Rightarrow> Corner \<Rightarrow> Corner option" where
  "applyH h p =
     (case hom3 h p of
        (X, Y, W) \<Rightarrow> if W = 0 then None else Some \<lparr>px = X / W, py = Y / W\<rparr>)"

text \<open>The sixteen entries of \<open>matrix3d\<close> for a real 3x3 matrix, as the array literal of
  \<open>computeCssMatrix\<close> places them.\<close>

definition matrix3d_of :: "real list \<Rightarrow> jsnum list" where
  "matrix3d_of h =
     [Fin (h ! 0), Fin (h ! 3), Fin 0, Fin (h ! 6),
      Fin (h ! 1), Fin (h ! 4), Fin 0, Fin (h ! 7),
      Fin 0, Fin 0, Fin 1, Fin 0,
      Fin (h ! 2), Fin (h ! 5), Fin 0, Fin (h ! 8)]"

text \<open>Lines 261 to 284 of \<open>computeCssMatrix\<close> as a function of the array \<open>m3\<close> that line
  260 has computed: the normalisation loop and the array literal of \<open>matrix3d\<close>.\<close>

definition normalizeAndEmbed :: "real list \<Rightarrow> css" where
  "normalizeAndEmbed m3 =
     (let n = normalize_from 0 (map Fin m3)
      in Matrix3d
           [n ! 0, n ! 3, Fin 0, n ! 6,
            n ! 1, n ! 4, Fin 0, n ! 7,
            Fin 0, Fin 0, Fin 1, Fin 0,
            n ! 2, n ! 5, Fin 0, n ! 8])"

text \<open>The true inverse, as the specification's alternative to the adjugate: the
  adjugate divided by the determinant.\<close>

definition inverse3 :: "real list \<Rightarrow> real list" where
  "inverse3 m = map (\<lambda>v. v / det3 m) (adj m)"



text \<open>The array \<open>m2\<close> that \<open>basisToPoints\<close> returns, for the coefficients \<open>s\<close> that
  \<open>solve\<close> found.\<close>

definition scaled :: "Corner \<Rightarrow> Corner \<Rightarrow> Corner \<Rightarrow> real \<Rightarrow> real \<Rightarrow> real \<Rightarrow> real list" where
  "scaled p1 p2 p3 a0 a1 a2 =
     [px p1 * a0, px p2 * a1, px p3 * a2,
      py p1 * a0, py p2 * a1, py p3 * a2,
      a0, a1, a2]"

section \<open>The solver\<close>

subsection \<open>Arrays of nine numbers\<close>

lemma upt3: "[0..<3] = [0, 1, 2]"
  by (simp add: upt_rec)

lemma list9:
  "length k = 9 \<Longrightarrow> k = [k ! 0, k ! 1, k ! 2, k ! 3, k ! 4, k ! 5, k ! 6, k ! 7, k ! 8]"
  by (rule nth_equalityI) (auto simp: nth_Cons' less_Suc_eq numeral_eq_Suc)

lemma multmm_nth:
  "multmm a b =
     [a ! 0 * b ! 0 + a ! 1 * b ! 3 + a ! 2 * b ! 6,
      a ! 0 * b ! 1 + a ! 1 * b ! 4 + a ! 2 * b ! 7,
      a ! 0 * b ! 2 + a ! 1 * b ! 5 + a ! 2 * b ! 8,
      a ! 3 * b ! 0 + a ! 4 * b ! 3 + a ! 5 * b ! 6,
      a ! 3 * b ! 1 + a ! 4 * b ! 4 + a ! 5 * b ! 7,
      a ! 3 * b ! 2 + a ! 4 * b ! 5 + a ! 5 * b ! 8,
      a ! 6 * b ! 0 + a ! 7 * b ! 3 + a ! 8 * b ! 6,
      a ! 6 * b ! 1 + a ! 7 * b ! 4 + a ! 8 * b ! 7,
      a ! 6 * b ! 2 + a ! 7 * b ! 5 + a ! 8 * b ! 8]"
  by (simp add: multmm_def upt3 arr_set_def numeral_2_eq_2 [symmetric])

lemma multmm9:
  "multmm [a0, a1, a2, a3, a4, a5, a6, a7, a8] [b0, b1, b2, b3, b4, b5, b6, b7, b8] =
     [a0 * b0 + a1 * b3 + a2 * b6, a0 * b1 + a1 * b4 + a2 * b7, a0 * b2 + a1 * b5 + a2 * b8,
      a3 * b0 + a4 * b3 + a5 * b6, a3 * b1 + a4 * b4 + a5 * b7, a3 * b2 + a4 * b5 + a5 * b8,
      a6 * b0 + a7 * b3 + a8 * b6, a6 * b1 + a7 * b4 + a8 * b7, a6 * b2 + a7 * b5 + a8 * b8]"
  by (simp add: multmm_def upt3 arr_set_def)

lemma length_multmm: "length (multmm a b) = 9"
  by (simp add: multmm_def upt3 arr_set_def Let_def)

lemma adj9:
  "adj [m0, m1, m2, m3, m4, m5, m6, m7, m8] =
     [m4 * m8 - m5 * m7, m2 * m7 - m1 * m8, m1 * m5 - m2 * m4,
      m5 * m6 - m3 * m8, m0 * m8 - m2 * m6, m2 * m3 - m0 * m5,
      m3 * m7 - m4 * m6, m1 * m6 - m0 * m7, m0 * m4 - m1 * m3]"
  by (simp add: adj_def)

lemma normalize9:
  "normalize_from 0 [a0, a1, a2, a3, a4, a5, a6, a7, a8] =
     [jdiv a0 a8, jdiv a1 a8, jdiv a2 a8, jdiv a3 a8, jdiv a4 a8, jdiv a5 a8,
      jdiv a6 a8, jdiv a7 a8, jdiv a8 a8]"
  by (simp add: normalize_from.simps [of _ "_ # _"] arr_get_def)

lemma length_normalize_from: "length (normalize_from i m) = length m"
proof (induction i m rule: normalize_from.induct)
  case (1 i m3)
  show ?case
  proof (cases "i < length m3")
    case True
    with 1 show ?thesis by (simp add: normalize_from.simps [of i m3])
  next
    case False
    then show ?thesis by (simp add: normalize_from.simps [of i m3])
  qed
qed

lemma normalize_nonzero:
  assumes "length m = 9" and "m ! 8 \<noteq> 0"
  shows "normalize_from 0 (map Fin m) = map Fin (map (\<lambda>v. v / m ! 8) m)"
proof -
  obtain m0 m1 m2 m3 m4 m5 m6 m7 m8 where m: "m = [m0, m1, m2, m3, m4, m5, m6, m7, m8]"
    using list9 [OF assms(1)] by blast
  with assms(2) show ?thesis by (simp add: normalize9)
qed

subsection \<open>solve and basisToPoints\<close>

lemma scale_row:
  "(u * (1 / D)) * b0 + (v * (1 / D)) * b1 + (w * (1 / D)) * b2 =
     (u * b0 + v * b1 + w * b2) / (D::real)"
  by (simp add: add_divide_distrib)

lemma solve9:
  assumes "det3 [a0, a1, a2, a3, a4, a5, a6, a7, a8] \<noteq> 0"
  shows "solve [a0, a1, a2, a3, a4, a5, a6, a7, a8] [b0, b1, b2] =
    Some [((a4 * a8 - a5 * a7) * b0 + (a2 * a7 - a1 * a8) * b1 + (a1 * a5 - a2 * a4) * b2) /
            det3 [a0, a1, a2, a3, a4, a5, a6, a7, a8],
          ((a5 * a6 - a3 * a8) * b0 + (a0 * a8 - a2 * a6) * b1 + (a2 * a3 - a0 * a5) * b2) /
            det3 [a0, a1, a2, a3, a4, a5, a6, a7, a8],
          ((a3 * a7 - a4 * a6) * b0 + (a1 * a6 - a0 * a7) * b1 + (a0 * a4 - a1 * a3) * b2) /
            det3 [a0, a1, a2, a3, a4, a5, a6, a7, a8]]"
proof -
  define D where "D = det3 [a0, a1, a2, a3, a4, a5, a6, a7, a8]"
  have d: "a0 * (a4 * a8 - a5 * a7) - a1 * (a3 * a8 - a5 * a6) + a2 * (a3 * a7 - a4 * a6) = D"
    by (simp add: D_def det3_def)
  have "D \<noteq> 0" using assms by (simp add: D_def)
  then show ?thesis
    unfolding solve_def Let_def D_def [symmetric]
    by (simp add: d scale_row del: times_divide_eq_left times_divide_eq_right mult_1_right)
qed

lemma solve_singular:
  "det3 [a0, a1, a2, a3, a4, a5, a6, a7, a8] = 0 \<Longrightarrow>
     solve [a0, a1, a2, a3, a4, a5, a6, a7, a8] b = None"
  by (simp add: solve_def det3_def)

lemma det3_tri: "det3 [px p1, px p2, px p3, py p1, py p2, py p3, 1, 1, 1] = tri p1 p2 p3"
  by (simp add: det3_def tri_def)

lemma solve_tri:
  assumes "tri p1 p2 p3 \<noteq> 0"
  shows "solve [px p1, px p2, px p3, py p1, py p2, py p3, 1, 1, 1] [px p4, py p4, 1] =
     Some [tri p4 p2 p3 / tri p1 p2 p3, tri p1 p4 p3 / tri p1 p2 p3, tri p1 p2 p4 / tri p1 p2 p3]"
proof -
  have n0: "(py p2 * 1 - py p3 * 1) * px p4 + (px p3 * 1 - px p2 * 1) * py p4 +
      (px p2 * py p3 - px p3 * py p2) * 1 = tri p4 p2 p3"
    by (simp add: tri_def algebra_simps)
  have n1: "(py p3 * 1 - py p1 * 1) * px p4 + (px p1 * 1 - px p3 * 1) * py p4 +
      (px p3 * py p1 - px p1 * py p3) * 1 = tri p1 p4 p3"
    by (simp add: tri_def algebra_simps)
  have n2: "(py p1 * 1 - py p2 * 1) * px p4 + (px p2 * 1 - px p1 * 1) * py p4 +
      (px p1 * py p2 - px p2 * py p1) * 1 = tri p1 p2 p4"
    by (simp add: tri_def algebra_simps)
  have "det3 [px p1, px p2, px p3, py p1, py p2, py p3, 1, 1, 1] \<noteq> 0"
    using assms by (simp add: det3_tri)
  from solve9 [OF this, of "px p4" "py p4" 1] show ?thesis
    by (simp only: n0 n1 n2 det3_tri)
qed

lemma basisToPoints_collinear: "tri p1 p2 p3 = 0 \<Longrightarrow> basisToPoints p1 p2 p3 p4 = None"
  by (simp add: basisToPoints_def Let_def solve_singular det3_tri)

lemma basisToPoints_scaled:
  "tri p1 p2 p3 \<noteq> 0 \<Longrightarrow>
   basisToPoints p1 p2 p3 p4 =
     Some (scaled p1 p2 p3 (tri p4 p2 p3 / tri p1 p2 p3) (tri p1 p4 p3 / tri p1 p2 p3)
            (tri p1 p2 p4 / tri p1 p2 p3))"
  by (simp add: basisToPoints_def Let_def solve_tri scaled_def)

lemma basisToPoints_None_iff: "basisToPoints p1 p2 p3 p4 = None \<longleftrightarrow> collinear3 p1 p2 p3"
  by (cases "tri p1 p2 p3 = 0")
     (simp_all add: collinear3_def basisToPoints_collinear basisToPoints_scaled)

subsection \<open>computeCssMatrix through its intermediate values\<close>

lemma computeCssMatrix_four:
  assumes "4 \<le> length srcPoints" and "4 \<le> length dstPoints"
  shows "computeCssMatrix srcPoints dstPoints =
     Inr (case homography srcPoints dstPoints of
            None \<Rightarrow> Empty
          | Some m3 \<Rightarrow>
              Matrix3d
                [m3 ! 0, m3 ! 3, Fin 0, m3 ! 6,
                 m3 ! 1, m3 ! 4, Fin 0, m3 ! 7,
                 Fin 0, Fin 0, Fin 1, Fin 0,
                 m3 ! 2, m3 ! 5, Fin 0, m3 ! 8])"
  using assms
  by (simp add: computeCssMatrix_def homography_def unnormalized_def Let_def
        split: option.splits)

lemma unnormalized_four:
  "unnormalized [s1, s2, s3, s4] [d1, d2, d3, d4] =
     (if collinear3 s1 s2 s3 \<or> collinear3 d1 d2 d3 then None
      else Some (multmm
        (scaled d1 d2 d3 (tri d4 d2 d3 / tri d1 d2 d3) (tri d1 d4 d3 / tri d1 d2 d3)
           (tri d1 d2 d4 / tri d1 d2 d3))
        (adj (scaled s1 s2 s3 (tri s4 s2 s3 / tri s1 s2 s3) (tri s1 s4 s3 / tri s1 s2 s3)
           (tri s1 s2 s4 / tri s1 s2 s3)))))"
proof (cases "tri s1 s2 s3 = 0")
  case True
  then show ?thesis
    by (simp add: unnormalized_def collinear3_def basisToPoints_collinear)
next
  case s: False
  show ?thesis
  proof (cases "tri d1 d2 d3 = 0")
    case True
    with s show ?thesis
      by (simp add: unnormalized_def collinear3_def basisToPoints_collinear basisToPoints_scaled)
  next
    case False
    with s show ?thesis
      by (simp add: unnormalized_def collinear3_def basisToPoints_scaled)
  qed
qed

subsection \<open>Triangles and Cramer's rule\<close>

lemma tri_rotate: "tri q r p = tri p q r"
  by (simp add: tri_def algebra_simps)

lemma tri_swap: "tri p r q = - tri p q r"
  by (simp add: tri_def algebra_simps)

lemma cramer:
  assumes "tri p1 p2 p3 \<noteq> 0"
  shows "px p4 = px p1 * (tri p4 p2 p3 / tri p1 p2 p3) + px p2 * (tri p1 p4 p3 / tri p1 p2 p3) +
           px p3 * (tri p1 p2 p4 / tri p1 p2 p3)"
    and "py p4 = py p1 * (tri p4 p2 p3 / tri p1 p2 p3) + py p2 * (tri p1 p4 p3 / tri p1 p2 p3) +
           py p3 * (tri p1 p2 p4 / tri p1 p2 p3)"
    and "tri p4 p2 p3 / tri p1 p2 p3 + tri p1 p4 p3 / tri p1 p2 p3 + tri p1 p2 p4 / tri p1 p2 p3 = 1"
proof -
  let ?D = "tri p1 p2 p3"
  have x: "px p1 * tri p4 p2 p3 + px p2 * tri p1 p4 p3 + px p3 * tri p1 p2 p4 = px p4 * ?D"
    by (simp add: tri_def algebra_simps)
  have y: "py p1 * tri p4 p2 p3 + py p2 * tri p1 p4 p3 + py p3 * tri p1 p2 p4 = py p4 * ?D"
    by (simp add: tri_def algebra_simps)
  have o: "tri p4 p2 p3 + tri p1 p4 p3 + tri p1 p2 p4 = ?D"
    by (simp add: tri_def algebra_simps)
  have "px p1 * (tri p4 p2 p3 / ?D) + px p2 * (tri p1 p4 p3 / ?D) + px p3 * (tri p1 p2 p4 / ?D) =
      (px p1 * tri p4 p2 p3 + px p2 * tri p1 p4 p3 + px p3 * tri p1 p2 p4) / ?D"
    by (simp add: add_divide_distrib)
  with x assms show "px p4 = px p1 * (tri p4 p2 p3 / ?D) + px p2 * (tri p1 p4 p3 / ?D) +
      px p3 * (tri p1 p2 p4 / ?D)"
    by simp
  have "py p1 * (tri p4 p2 p3 / ?D) + py p2 * (tri p1 p4 p3 / ?D) + py p3 * (tri p1 p2 p4 / ?D) =
      (py p1 * tri p4 p2 p3 + py p2 * tri p1 p4 p3 + py p3 * tri p1 p2 p4) / ?D"
    by (simp add: add_divide_distrib)
  with y assms show "py p4 = py p1 * (tri p4 p2 p3 / ?D) + py p2 * (tri p1 p4 p3 / ?D) +
      py p3 * (tri p1 p2 p4 / ?D)"
    by simp
  have "tri p4 p2 p3 / ?D + tri p1 p4 p3 / ?D + tri p1 p2 p4 / ?D =
      (tri p4 p2 p3 + tri p1 p4 p3 + tri p1 p2 p4) / ?D"
    by (simp add: add_divide_distrib)
  with o assms show "tri p4 p2 p3 / ?D + tri p1 p4 p3 / ?D + tri p1 p2 p4 / ?D = 1"
    by simp
qed

subsection \<open>The product maps the source corners onto multiples of the destination corners\<close>

lemma product_corner1:
  "hom3 (multmm (scaled d1 d2 d3 b0 b1 b2) (adj (scaled s1 s2 s3 a0 a1 a2))) s1 =
     (a1 * a2 * tri s1 s2 s3 * b0 * px d1, a1 * a2 * tri s1 s2 s3 * b0 * py d1,
      a1 * a2 * tri s1 s2 s3 * b0)"
  by (simp add: hom3_def scaled_def multmm9 adj9 tri_def algebra_simps)

lemma product_corner2:
  "hom3 (multmm (scaled d1 d2 d3 b0 b1 b2) (adj (scaled s1 s2 s3 a0 a1 a2))) s2 =
     (a0 * a2 * tri s1 s2 s3 * b1 * px d2, a0 * a2 * tri s1 s2 s3 * b1 * py d2,
      a0 * a2 * tri s1 s2 s3 * b1)"
  by (simp add: hom3_def scaled_def multmm9 adj9 tri_def algebra_simps)

lemma product_corner3:
  "hom3 (multmm (scaled d1 d2 d3 b0 b1 b2) (adj (scaled s1 s2 s3 a0 a1 a2))) s3 =
     (a0 * a1 * tri s1 s2 s3 * b2 * px d3, a0 * a1 * tri s1 s2 s3 * b2 * py d3,
      a0 * a1 * tri s1 s2 s3 * b2)"
  by (simp add: hom3_def scaled_def multmm9 adj9 tri_def algebra_simps)

lemma product_corner4:
  assumes "px s4 = px s1 * a0 + px s2 * a1 + px s3 * a2"
    and "py s4 = py s1 * a0 + py s2 * a1 + py s3 * a2"
    and "a0 + a1 + a2 = 1"
    and "px d4 = px d1 * b0 + px d2 * b1 + px d3 * b2"
    and "py d4 = py d1 * b0 + py d2 * b1 + py d3 * b2"
    and "b0 + b1 + b2 = 1"
  shows "hom3 (multmm (scaled d1 d2 d3 b0 b1 b2) (adj (scaled s1 s2 s3 a0 a1 a2))) s4 =
     (a0 * a1 * a2 * tri s1 s2 s3 * px d4, a0 * a1 * a2 * tri s1 s2 s3 * py d4,
      a0 * a1 * a2 * tri s1 s2 s3)"
proof -
  have a2: "a2 = 1 - a0 - a1" and b2: "b2 = 1 - b0 - b1"
    using assms(3,6) by simp_all
  show ?thesis
    unfolding hom3_def assms(1,2,4,5) 
    unfolding a2 b2
    by (simp add: scaled_def multmm9 adj9 tri_def algebra_simps)
qed

subsection \<open>Three corners that are not collinear are a basis\<close>

lemma independent3:
  assumes E: "tri d1 d2 d3 \<noteq> 0"
    and e1: "c1 * px d1 + c2 * px d2 + c3 * px d3 = 0"
    and e2: "c1 * py d1 + c2 * py d2 + c3 * py d3 = 0"
    and e3: "c1 + c2 + c3 = 0"
  shows "c1 = 0 \<and> c2 = 0 \<and> c3 = 0"
proof -
  have "c1 * tri d1 d2 d3 = 0" unfolding tri_def using e1 e2 e3 by algebra
  moreover have "c2 * tri d1 d2 d3 = 0" unfolding tri_def using e1 e2 e3 by algebra
  moreover have "c3 * tri d1 d2 d3 = 0" unfolding tri_def using e1 e2 e3 by algebra
  ultimately show ?thesis using E by simp
qed

lemma row_zero3:
  assumes D: "tri s1 s2 s3 \<noteq> 0"
    and e1: "r0 * px s1 + r1 * py s1 + r2 = 0"
    and e2: "r0 * px s2 + r1 * py s2 + r2 = 0"
    and e3: "r0 * px s3 + r1 * py s3 + r2 = 0"
  shows "r0 = 0 \<and> r1 = 0 \<and> r2 = 0"
proof -
  have "r0 * tri s1 s2 s3 = 0" unfolding tri_def using e1 e2 e3 by algebra
  moreover have "r1 * tri s1 s2 s3 = 0" unfolding tri_def using e1 e2 e3 by algebra
  moreover have "r2 * tri s1 s2 s3 = 0" unfolding tri_def using e1 e2 e3 by algebra
  ultimately show ?thesis using D by simp
qed

subsection \<open>Applying a matrix\<close>

lemma applyH_SomeD:
  assumes "applyH k s = Some d"
  obtains w where "w \<noteq> 0" and "hom3 k s = (w * px d, w * py d, w)"
proof -
  obtain X Y W where h: "hom3 k s = (X, Y, W)" by (cases "hom3 k s")
  with assms have w: "W \<noteq> 0" and d: "d = \<lparr>px = X / W, py = Y / W\<rparr>"
    by (auto simp: applyH_def split: if_splits)
  from w d have "X = W * px d" "Y = W * py d" by simp_all
  with h w that show thesis by simp
qed

lemma applyH_scaled:
  assumes "length m = 9" and "c \<noteq> 0" and "l \<noteq> 0"
    and "hom3 m s = (l * px d, l * py d, l)"
  shows "applyH (map (\<lambda>v. v / c) m) s = Some d"
proof -
  obtain m0 m1 m2 m3 m4 m5 m6 m7 m8 where m: "m = [m0, m1, m2, m3, m4, m5, m6, m7, m8]"
    using list9 [OF assms(1)] by blast
  from assms(4) have X: "m0 * px s + m1 * py s + m2 = l * px d"
    and Y: "m3 * px s + m4 * py s + m5 = l * py d"
    and W: "m6 * px s + m7 * py s + m8 = l"
    by (simp_all add: hom3_def m)
  have "hom3 (map (\<lambda>v. v / c) m) s =
      ((m0 * px s + m1 * py s + m2) / c, (m3 * px s + m4 * py s + m5) / c,
       (m6 * px s + m7 * py s + m8) / c)"
    by (simp add: hom3_def m add_divide_distrib)
  then have "hom3 (map (\<lambda>v. v / c) m) s = ((l * px d) / c, (l * py d) / c, l / c)"
    by (simp only: X Y W)
  with assms(2,3) show ?thesis
    by (simp add: applyH_def)
qed

subsection \<open>Uniqueness\<close>

lemma projective_unique:
  assumes D: "tri s1 s2 s3 \<noteq> 0" and E: "tri d1 d2 d3 \<noteq> 0"
    and a: "a0 \<noteq> 0" "a1 \<noteq> 0" "a2 \<noteq> 0"
    and sx: "px s4 = px s1 * a0 + px s2 * a1 + px s3 * a2"
    and sy: "py s4 = py s1 * a0 + py s2 * a1 + py s3 * a2"
    and s1: "a0 + a1 + a2 = 1"
    and dx: "px d4 = px d1 * b0 + px d2 * b1 + px d3 * b2"
    and dy: "py d4 = py d1 * b0 + py d2 * b1 + py d3 * b2"
    and d1: "b0 + b1 + b2 = 1"
    and K1: "hom3 k s1 = (w1 * px d1, w1 * py d1, w1)"
    and K2: "hom3 k s2 = (w2 * px d2, w2 * py d2, w2)"
    and K3: "hom3 k s3 = (w3 * px d3, w3 * py d3, w3)"
    and K4: "hom3 k s4 = (w4 * px d4, w4 * py d4, w4)"
    and M1: "hom3 m s1 = (l1 * px d1, l1 * py d1, l1)"
    and M2: "hom3 m s2 = (l2 * px d2, l2 * py d2, l2)"
    and M3: "hom3 m s3 = (l3 * px d3, l3 * py d3, l3)"
    and L: "a0 * l1 = L * b0" "a1 * l2 = L * b1" "a2 * l3 = L * b2"
  shows "\<forall>j<9. L * k ! j = w4 * m ! j"
proof -
  note K = K1 K2 K3 K4
  have kx: "k ! 0 * px s1 + k ! 1 * py s1 + k ! 2 = w1 * px d1"
    "k ! 0 * px s2 + k ! 1 * py s2 + k ! 2 = w2 * px d2"
    "k ! 0 * px s3 + k ! 1 * py s3 + k ! 2 = w3 * px d3"
    "k ! 0 * px s4 + k ! 1 * py s4 + k ! 2 = w4 * px d4"
    using K by (simp_all add: hom3_def)
  have ky: "k ! 3 * px s1 + k ! 4 * py s1 + k ! 5 = w1 * py d1"
    "k ! 3 * px s2 + k ! 4 * py s2 + k ! 5 = w2 * py d2"
    "k ! 3 * px s3 + k ! 4 * py s3 + k ! 5 = w3 * py d3"
    "k ! 3 * px s4 + k ! 4 * py s4 + k ! 5 = w4 * py d4"
    using K by (simp_all add: hom3_def)
  have kw: "k ! 6 * px s1 + k ! 7 * py s1 + k ! 8 = w1"
    "k ! 6 * px s2 + k ! 7 * py s2 + k ! 8 = w2"
    "k ! 6 * px s3 + k ! 7 * py s3 + k ! 8 = w3"
    "k ! 6 * px s4 + k ! 7 * py s4 + k ! 8 = w4"
    using K by (simp_all add: hom3_def)
  have mx: "m ! 0 * px s1 + m ! 1 * py s1 + m ! 2 = l1 * px d1"
    "m ! 0 * px s2 + m ! 1 * py s2 + m ! 2 = l2 * px d2"
    "m ! 0 * px s3 + m ! 1 * py s3 + m ! 2 = l3 * px d3"
    using M1 M2 M3 by (simp_all add: hom3_def)
  have my: "m ! 3 * px s1 + m ! 4 * py s1 + m ! 5 = l1 * py d1"
    "m ! 3 * px s2 + m ! 4 * py s2 + m ! 5 = l2 * py d2"
    "m ! 3 * px s3 + m ! 4 * py s3 + m ! 5 = l3 * py d3"
    using M1 M2 M3 by (simp_all add: hom3_def)
  have mw: "m ! 6 * px s1 + m ! 7 * py s1 + m ! 8 = l1"
    "m ! 6 * px s2 + m ! 7 * py s2 + m ! 8 = l2"
    "m ! 6 * px s3 + m ! 7 * py s3 + m ! 8 = l3"
    using M1 M2 M3 by (simp_all add: hom3_def)
  txt \<open>The fourth correspondence fixes the ratios of the three scale factors.\<close>
  have cx: "(a0 * w1 - w4 * b0) * px d1 + (a1 * w2 - w4 * b1) * px d2 +
      (a2 * w3 - w4 * b2) * px d3 = 0"
  proof -
    have "a0 * (w1 * px d1) + a1 * (w2 * px d2) + a2 * (w3 * px d3) =
        k ! 0 * px s4 + k ! 1 * py s4 + k ! 2 * (a0 + a1 + a2)"
      unfolding kx(1-3) [symmetric] sx sy by (simp add: algebra_simps)
    also have "\<dots> = w4 * px d4" using kx(4) s1 by simp
    finally show ?thesis unfolding dx by (simp add: algebra_simps)
  qed
  have cy: "(a0 * w1 - w4 * b0) * py d1 + (a1 * w2 - w4 * b1) * py d2 +
      (a2 * w3 - w4 * b2) * py d3 = 0"
  proof -
    have "a0 * (w1 * py d1) + a1 * (w2 * py d2) + a2 * (w3 * py d3) =
        k ! 3 * px s4 + k ! 4 * py s4 + k ! 5 * (a0 + a1 + a2)"
      unfolding ky(1-3) [symmetric] sx sy by (simp add: algebra_simps)
    also have "\<dots> = w4 * py d4" using ky(4) s1 by simp
    finally show ?thesis unfolding dy by (simp add: algebra_simps)
  qed
  have cw: "(a0 * w1 - w4 * b0) + (a1 * w2 - w4 * b1) + (a2 * w3 - w4 * b2) = 0"
  proof -
    have "a0 * w1 + a1 * w2 + a2 * w3 =
        k ! 6 * px s4 + k ! 7 * py s4 + k ! 8 * (a0 + a1 + a2)"
      unfolding kw(1-3) [symmetric] sx sy by (simp add: algebra_simps)
    also have "\<dots> = w4" using kw(4) s1 by simp
    also have "\<dots> = w4 * (b0 + b1 + b2)" using d1 by simp
    finally show ?thesis by (simp add: algebra_simps)
  qed
  from independent3 [OF E cx cy cw]
  have r: "a0 * w1 = w4 * b0" "a1 * w2 = w4 * b1" "a2 * w3 = w4 * b2" by simp_all
  have lw: "L * w1 = w4 * l1" "L * w2 = w4 * l2" "L * w3 = w4 * l3"
  proof -
    have "a0 * (L * w1) = a0 * (w4 * l1)" using r(1) L(1) by algebra
    then show "L * w1 = w4 * l1" using a(1) by simp
    have "a1 * (L * w2) = a1 * (w4 * l2)" using r(2) L(2) by algebra
    then show "L * w2 = w4 * l2" using a(2) by simp
    have "a2 * (L * w3) = a2 * (w4 * l3)" using r(3) L(3) by algebra
    then show "L * w3 = w4 * l3" using a(3) by simp
  qed
  txt \<open>Each row of \<open>L * k - w4 * m\<close> vanishes on the three source corners.\<close>
  have row: "L * k ! i = w4 * m ! i \<and> L * k ! j = w4 * m ! j \<and> L * k ! n = w4 * m ! n"
    if k: "k ! i * px s1 + k ! j * py s1 + k ! n = w1 * v1"
          "k ! i * px s2 + k ! j * py s2 + k ! n = w2 * v2"
          "k ! i * px s3 + k ! j * py s3 + k ! n = w3 * v3"
      and m: "m ! i * px s1 + m ! j * py s1 + m ! n = l1 * v1"
          "m ! i * px s2 + m ! j * py s2 + m ! n = l2 * v2"
          "m ! i * px s3 + m ! j * py s3 + m ! n = l3 * v3"
    for i j n v1 v2 v3
  proof -
    have e1: "(L * k ! i - w4 * m ! i) * px s1 + (L * k ! j - w4 * m ! j) * py s1 +
        (L * k ! n - w4 * m ! n) = 0"
    proof -
      have "(L * k ! i - w4 * m ! i) * px s1 + (L * k ! j - w4 * m ! j) * py s1 +
          (L * k ! n - w4 * m ! n) =
          L * (k ! i * px s1 + k ! j * py s1 + k ! n) - w4 * (m ! i * px s1 + m ! j * py s1 + m ! n)"
        by (simp add: algebra_simps)
      also have "\<dots> = (L * w1) * v1 - (w4 * l1) * v1" unfolding k m by simp
      finally show ?thesis using lw(1) by simp
    qed
    have e2: "(L * k ! i - w4 * m ! i) * px s2 + (L * k ! j - w4 * m ! j) * py s2 +
        (L * k ! n - w4 * m ! n) = 0"
    proof -
      have "(L * k ! i - w4 * m ! i) * px s2 + (L * k ! j - w4 * m ! j) * py s2 +
          (L * k ! n - w4 * m ! n) =
          L * (k ! i * px s2 + k ! j * py s2 + k ! n) - w4 * (m ! i * px s2 + m ! j * py s2 + m ! n)"
        by (simp add: algebra_simps)
      also have "\<dots> = (L * w2) * v2 - (w4 * l2) * v2" unfolding k m by simp
      finally show ?thesis using lw(2) by simp
    qed
    have e3: "(L * k ! i - w4 * m ! i) * px s3 + (L * k ! j - w4 * m ! j) * py s3 +
        (L * k ! n - w4 * m ! n) = 0"
    proof -
      have "(L * k ! i - w4 * m ! i) * px s3 + (L * k ! j - w4 * m ! j) * py s3 +
          (L * k ! n - w4 * m ! n) =
          L * (k ! i * px s3 + k ! j * py s3 + k ! n) - w4 * (m ! i * px s3 + m ! j * py s3 + m ! n)"
        by (simp add: algebra_simps)
      also have "\<dots> = (L * w3) * v3 - (w4 * l3) * v3" unfolding k m by simp
      finally show ?thesis using lw(3) by simp
    qed
    from row_zero3 [OF D e1 e2 e3] show ?thesis by simp
  qed
  from row [OF kx(1-3) mx] row [OF ky(1-3) my]
    row [of 6 7 8 1 1 1] kw(1-3) mw
  have "L * k ! 0 = w4 * m ! 0" "L * k ! 1 = w4 * m ! 1" "L * k ! 2 = w4 * m ! 2"
    "L * k ! 3 = w4 * m ! 3" "L * k ! 4 = w4 * m ! 4" "L * k ! 5 = w4 * m ! 5"
    "L * k ! 6 = w4 * m ! 6" "L * k ! 7 = w4 * m ! 7" "L * k ! 8 = w4 * m ! 8"
    by simp_all
  then show ?thesis
    by (auto simp: less_Suc_eq numeral_eq_Suc)
qed

lemma noThreeCollinear_tri:
  assumes "noThreeCollinear [p1, p2, p3, p4]"
  shows "tri p1 p2 p3 \<noteq> 0" and "tri p4 p2 p3 \<noteq> 0" and "tri p1 p4 p3 \<noteq> 0" and "tri p1 p2 p4 \<noteq> 0"
proof -
  from assms have t: "tri p1 p2 p3 \<noteq> 0" "tri p1 p2 p4 \<noteq> 0" "tri p1 p3 p4 \<noteq> 0" "tri p2 p3 p4 \<noteq> 0"
    by (simp_all add: noThreeCollinear_def collinear3_def)
  show "tri p1 p2 p3 \<noteq> 0" and "tri p1 p2 p4 \<noteq> 0" by (rule t)+
  from t(4) show "tri p4 p2 p3 \<noteq> 0" by (simp add: tri_rotate)
  from t(3) show "tri p1 p4 p3 \<noteq> 0" by (simp add: tri_swap [of p1 p4 p3])
qed

text \<open>The facts about the product \<open>B_dst * adj(B_src)\<close> that the claims about the solver share.\<close>

lemma product_facts:
  assumes src: "noThreeCollinear [s1, s2, s3, s4]"
    and dst: "noThreeCollinear [d1, d2, d3, d4]"
  shows "\<exists>m l1 l2 l3 l4.
    unnormalized [s1, s2, s3, s4] [d1, d2, d3, d4] = Some m \<and> length m = 9 \<and>
    l1 \<noteq> 0 \<and> l2 \<noteq> 0 \<and> l3 \<noteq> 0 \<and> l4 \<noteq> 0 \<and>
    hom3 m s1 = (l1 * px d1, l1 * py d1, l1) \<and>
    hom3 m s2 = (l2 * px d2, l2 * py d2, l2) \<and>
    hom3 m s3 = (l3 * px d3, l3 * py d3, l3) \<and>
    hom3 m s4 = (l4 * px d4, l4 * py d4, l4) \<and>
    (\<forall>k w1 w2 w3 w4.
       hom3 k s1 = (w1 * px d1, w1 * py d1, w1) \<and>
       hom3 k s2 = (w2 * px d2, w2 * py d2, w2) \<and>
       hom3 k s3 = (w3 * px d3, w3 * py d3, w3) \<and>
       hom3 k s4 = (w4 * px d4, w4 * py d4, w4) \<longrightarrow>
       (\<forall>j<9. l4 * k ! j = w4 * m ! j))"
proof -
  note ts = noThreeCollinear_tri [OF src] and td = noThreeCollinear_tri [OF dst]
  define a0 a1 a2 where "a0 = tri s4 s2 s3 / tri s1 s2 s3" and "a1 = tri s1 s4 s3 / tri s1 s2 s3"
    and "a2 = tri s1 s2 s4 / tri s1 s2 s3"
  define b0 b1 b2 where "b0 = tri d4 d2 d3 / tri d1 d2 d3" and "b1 = tri d1 d4 d3 / tri d1 d2 d3"
    and "b2 = tri d1 d2 d4 / tri d1 d2 d3"
  define m where "m = multmm (scaled d1 d2 d3 b0 b1 b2) (adj (scaled s1 s2 s3 a0 a1 a2))"
  have a: "a0 \<noteq> 0" "a1 \<noteq> 0" "a2 \<noteq> 0" using ts by (simp_all add: a0_def a1_def a2_def)
  have b: "b0 \<noteq> 0" "b1 \<noteq> 0" "b2 \<noteq> 0" using td by (simp_all add: b0_def b1_def b2_def)
  have u: "unnormalized [s1, s2, s3, s4] [d1, d2, d3, d4] = Some m"
    using ts(1) td(1)
    by (simp add: unnormalized_four collinear3_def m_def a0_def a1_def a2_def b0_def b1_def b2_def)
  have len: "length m = 9" by (simp add: m_def length_multmm)
  note cs = cramer [OF ts(1), of s4, folded a0_def a1_def a2_def]
  note cd = cramer [OF td(1), of d4, folded b0_def b1_def b2_def]
  have 1: "hom3 m s1 = (a1 * a2 * tri s1 s2 s3 * b0 * px d1, a1 * a2 * tri s1 s2 s3 * b0 * py d1,
      a1 * a2 * tri s1 s2 s3 * b0)"
    unfolding m_def by (rule product_corner1)
  have 2: "hom3 m s2 = (a0 * a2 * tri s1 s2 s3 * b1 * px d2, a0 * a2 * tri s1 s2 s3 * b1 * py d2,
      a0 * a2 * tri s1 s2 s3 * b1)"
    unfolding m_def by (rule product_corner2)
  have 3: "hom3 m s3 = (a0 * a1 * tri s1 s2 s3 * b2 * px d3, a0 * a1 * tri s1 s2 s3 * b2 * py d3,
      a0 * a1 * tri s1 s2 s3 * b2)"
    unfolding m_def by (rule product_corner3)
  have 4: "hom3 m s4 = (a0 * a1 * a2 * tri s1 s2 s3 * px d4, a0 * a1 * a2 * tri s1 s2 s3 * py d4,
      a0 * a1 * a2 * tri s1 s2 s3)"
    unfolding m_def by (rule product_corner4 [OF cs cd])
  have 5: "\<forall>j<9. a0 * a1 * a2 * tri s1 s2 s3 * k ! j = w4 * m ! j"
    if "hom3 k s1 = (w1 * px d1, w1 * py d1, w1) \<and> hom3 k s2 = (w2 * px d2, w2 * py d2, w2) \<and>
      hom3 k s3 = (w3 * px d3, w3 * py d3, w3) \<and> hom3 k s4 = (w4 * px d4, w4 * py d4, w4)"
    for k w1 w2 w3 w4
  proof -
    from that have k: "hom3 k s1 = (w1 * px d1, w1 * py d1, w1)"
      "hom3 k s2 = (w2 * px d2, w2 * py d2, w2)"
      "hom3 k s3 = (w3 * px d3, w3 * py d3, w3)" "hom3 k s4 = (w4 * px d4, w4 * py d4, w4)"
      by blast+
    show ?thesis
      by (rule projective_unique [OF ts(1) td(1) a cs cd k 1 2 3]) simp_all
  qed
  have n: "a1 * a2 * tri s1 s2 s3 * b0 \<noteq> 0" "a0 * a2 * tri s1 s2 s3 * b1 \<noteq> 0"
    "a0 * a1 * tri s1 s2 s3 * b2 \<noteq> 0" "a0 * a1 * a2 * tri s1 s2 s3 \<noteq> 0"
    using a b ts(1) by simp_all
  from u len n 1 2 3 4 5 show ?thesis by blast
qed

lemma homography_nonzero:
  assumes "unnormalized srcPoints dstPoints = Some m" and "length m = 9" and "m ! 8 \<noteq> 0"
  shows "homography srcPoints dstPoints = Some (map Fin (map (\<lambda>v. v / m ! 8) m))"
  using assms by (simp add: homography_def normalize_nonzero)

lemma matrix3d_finite:
  assumes "4 \<le> length srcPoints" and "4 \<le> length dstPoints"
    and "homography srcPoints dstPoints = Some (map Fin h)" and "length h = 9"
  shows "computeCssMatrix srcPoints dstPoints = Inr (Matrix3d (matrix3d_of h))"
  using assms by (simp add: computeCssMatrix_four matrix3d_of_def)

text \<open>
  Claim C1, as amended. For a source and a destination quadrilateral, each with no
  three collinear corners, such that the bottom-right entry of the product
  \<open>B_dst * adj(B_src)\<close> is not zero, \<open>computeCssMatrix\<close> returns the \<open>matrix3d\<close> of a 3x3
  matrix \<open>h\<close> with bottom-right entry 1 that, applied to each source corner in
  homogeneous coordinates and divided by the third coordinate, gives the
  corresponding destination corner; and \<open>h\<close> is the only 3x3 matrix with bottom-right
  entry 1 that does so. Numbers are real numbers here, so the correspondence is exact.
\<close>

theorem solver_correspondence_unique:
  assumes src: "noThreeCollinear [s1, s2, s3, s4]"
    and dst: "noThreeCollinear [d1, d2, d3, d4]"
    and m3: "unnormalized [s1, s2, s3, s4] [d1, d2, d3, d4] = Some m3"
    and nz: "m3 ! 8 \<noteq> 0"
  shows "\<exists>h. length h = 9 \<and> h ! 8 = 1 \<and>
     homography [s1, s2, s3, s4] [d1, d2, d3, d4] = Some (map Fin h) \<and>
     computeCssMatrix [s1, s2, s3, s4] [d1, d2, d3, d4] = Inr (Matrix3d (matrix3d_of h)) \<and>
     applyH h s1 = Some d1 \<and> applyH h s2 = Some d2 \<and>
     applyH h s3 = Some d3 \<and> applyH h s4 = Some d4 \<and>
     (\<forall>k. length k = 9 \<and> k ! 8 = 1 \<and>
          applyH k s1 = Some d1 \<and> applyH k s2 = Some d2 \<and>
          applyH k s3 = Some d3 \<and> applyH k s4 = Some d4 \<longrightarrow> k = h)"
proof -
  obtain m l1 l2 l3 l4 where u: "unnormalized [s1, s2, s3, s4] [d1, d2, d3, d4] = Some m"
    and len': "length m = 9"
    and l: "l1 \<noteq> 0" "l2 \<noteq> 0" "l3 \<noteq> 0" "l4 \<noteq> 0"
    and M': "hom3 m s1 = (l1 * px d1, l1 * py d1, l1)"
      "hom3 m s2 = (l2 * px d2, l2 * py d2, l2)"
      "hom3 m s3 = (l3 * px d3, l3 * py d3, l3)"
      "hom3 m s4 = (l4 * px d4, l4 * py d4, l4)"
    and U': "\<forall>k w1 w2 w3 w4.
       hom3 k s1 = (w1 * px d1, w1 * py d1, w1) \<and>
       hom3 k s2 = (w2 * px d2, w2 * py d2, w2) \<and>
       hom3 k s3 = (w3 * px d3, w3 * py d3, w3) \<and>
       hom3 k s4 = (w4 * px d4, w4 * py d4, w4) \<longrightarrow>
       (\<forall>j<9. l4 * k ! j = w4 * m ! j)"
    using product_facts [OF src dst] by blast
  from u m3 have mm: "m = m3" by simp
  note len = len' [unfolded mm] and M = M' [unfolded mm] and U = U' [unfolded mm]
  note M1 = M(1) and M2 = M(2) and M3 = M(3) and M4 = M(4)
  define h where "h = map (\<lambda>v. v / m3 ! 8) m3"
  have hlen: "length h = 9" by (simp add: h_def len)
  have h8: "h ! 8 = 1" using nz len by (simp add: h_def)
  have hom: "homography [s1, s2, s3, s4] [d1, d2, d3, d4] = Some (map Fin h)"
    unfolding h_def by (rule homography_nonzero [OF m3 len nz])
  have css: "computeCssMatrix [s1, s2, s3, s4] [d1, d2, d3, d4] = Inr (Matrix3d (matrix3d_of h))"
    by (rule matrix3d_finite [OF _ _ hom hlen]) simp_all
  have ap: "applyH h s1 = Some d1" "applyH h s2 = Some d2" "applyH h s3 = Some d3"
    "applyH h s4 = Some d4"
    unfolding h_def
    by (rule applyH_scaled [OF len nz _ M1] applyH_scaled [OF len nz _ M2]
          applyH_scaled [OF len nz _ M3] applyH_scaled [OF len nz _ M4], rule l)+
  have uniq: "k = h"
    if k: "length k = 9" "k ! 8 = 1" "applyH k s1 = Some d1" "applyH k s2 = Some d2"
      "applyH k s3 = Some d3" "applyH k s4 = Some d4" for k
  proof -
    from k(3) obtain w1 where "hom3 k s1 = (w1 * px d1, w1 * py d1, w1)" by (rule applyH_SomeD)
    moreover from k(4) obtain w2 where "hom3 k s2 = (w2 * px d2, w2 * py d2, w2)"
      by (rule applyH_SomeD)
    moreover from k(5) obtain w3 where "hom3 k s3 = (w3 * px d3, w3 * py d3, w3)"
      by (rule applyH_SomeD)
    moreover from k(6) obtain w4 where "hom3 k s4 = (w4 * px d4, w4 * py d4, w4)"
      by (rule applyH_SomeD)
    ultimately have e: "\<forall>j<9. l4 * k ! j = w4 * m3 ! j" using U by blast
    then have "l4 * k ! 8 = w4 * m3 ! 8" by simp
    with k(2) have l4: "l4 = w4 * m3 ! 8" by simp
    with l(4) have w4: "w4 \<noteq> 0" by auto
    show "k = h"
    proof (rule nth_equalityI)
      show "length k = length h" using k(1) hlen by simp
      fix j assume "j < length k"
      then have j: "j < 9" using k(1) by simp
      with e have "l4 * k ! j = w4 * m3 ! j" by simp
      then have "w4 * (m3 ! 8 * k ! j) = w4 * m3 ! j" unfolding l4 by (simp add: mult.assoc)
      with w4 have "m3 ! 8 * k ! j = m3 ! j" by simp
      with nz have "k ! j = m3 ! j / m3 ! 8" by (simp add: field_simps)
      with j len show "k ! j = h ! j" by (simp add: h_def)
    qed
  qed
  from hlen h8 hom css ap uniq show ?thesis by blast
qed

text \<open>The bottom-right entry of the product is not zero when the first source corner
  is the origin, as it is for the rectangle of the container.\<close>

lemma first_corner_origin:
  assumes src: "noThreeCollinear [s1, s2, s3, s4]"
    and dst: "noThreeCollinear [d1, d2, d3, d4]"
    and o: "px s1 = 0" "py s1 = 0"
  shows "\<exists>m3. unnormalized [s1, s2, s3, s4] [d1, d2, d3, d4] = Some m3 \<and> m3 ! 8 \<noteq> 0"
proof -
  obtain m l1 where u: "unnormalized [s1, s2, s3, s4] [d1, d2, d3, d4] = Some m"
    and l: "l1 \<noteq> 0" and M: "hom3 m s1 = (l1 * px d1, l1 * py d1, l1)"
    using product_facts [OF src dst] by blast
  from M o have "m ! 8 = l1" by (simp add: hom3_def)
  with u l show ?thesis by simp
qed

theorem solver_correspondence_unique_witness:
  "noThreeCollinear [\<lparr>px = 0, py = 0\<rparr>, \<lparr>px = 200, py = 0\<rparr>, \<lparr>px = 200, py = 100\<rparr>, \<lparr>px = 0, py = 100\<rparr>] \<and>
   noThreeCollinear [\<lparr>px = 0, py = 0\<rparr>, \<lparr>px = 180, py = 20\<rparr>, \<lparr>px = 200, py = 100\<rparr>, \<lparr>px = 0, py = 100\<rparr>] \<and>
   unnormalized [\<lparr>px = 0, py = 0\<rparr>, \<lparr>px = 200, py = 0\<rparr>, \<lparr>px = 200, py = 100\<rparr>, \<lparr>px = 0, py = 100\<rparr>]
     [\<lparr>px = 0, py = 0\<rparr>, \<lparr>px = 180, py = 20\<rparr>, \<lparr>px = 200, py = 100\<rparr>, \<lparr>px = 0, py = 100\<rparr>] =
     Some [- (180000 / 7), 0, 0, - (20000 / 7), - 20000, 0, - (200 / 7), 200 / 7, - (160000 / 7)] \<and>
   (\<exists>h. h ! 8 = 1 \<and>
      computeCssMatrix [\<lparr>px = 0, py = 0\<rparr>, \<lparr>px = 200, py = 0\<rparr>, \<lparr>px = 200, py = 100\<rparr>, \<lparr>px = 0, py = 100\<rparr>]
        [\<lparr>px = 0, py = 0\<rparr>, \<lparr>px = 180, py = 20\<rparr>, \<lparr>px = 200, py = 100\<rparr>, \<lparr>px = 0, py = 100\<rparr>] =
        Inr (Matrix3d (matrix3d_of h)) \<and>
      applyH h \<lparr>px = 200, py = 0\<rparr> = Some \<lparr>px = 180, py = 20\<rparr> \<and>
      applyH h \<lparr>px = 0, py = 0\<rparr> = Some \<lparr>px = 0, py = 0\<rparr>)"
proof -
  let ?S = "[\<lparr>px = 0, py = 0\<rparr>, \<lparr>px = 200, py = 0\<rparr>, \<lparr>px = 200, py = 100\<rparr>, \<lparr>px = 0, py = 100\<rparr>]"
  let ?D = "[\<lparr>px = 0, py = 0\<rparr>, \<lparr>px = 180, py = 20\<rparr>, \<lparr>px = 200, py = 100\<rparr>, \<lparr>px = 0, py = 100\<rparr>]"
  have s: "noThreeCollinear ?S" and d: "noThreeCollinear ?D"
    by (simp_all add: noThreeCollinear_def collinear3_def tri_def)
  have u: "unnormalized ?S ?D = Some [- (180000 / 7), 0, 0, - (20000 / 7), - 20000, 0, - (200 / 7), 200 / 7, - (160000 / 7)]"
    by (simp add: unnormalized_four collinear3_def tri_def scaled_def adj9 multmm9)
  have nz: "[- (180000 / 7), 0, 0, - (20000 / 7), - 20000, 0, - (200 / 7), 200 / 7, - (160000 / 7) :: real] ! 8 \<noteq> 0" by simp
  from solver_correspondence_unique [OF s d u nz] s d u show ?thesis by blast
qed

text \<open>
  Claim C1 as stated fails: for the unit square at \<open>(1, 1)\<close> and the destination below,
  neither with three collinear corners, the projective map sends the origin to
  infinity, the bottom-right entry of the product is zero, and the division yields
  entries that are not numbers.
\<close>

theorem solver_correspondence_counterexample:
  "noThreeCollinear [\<lparr>px = 1, py = 1\<rparr>, \<lparr>px = 2, py = 1\<rparr>, \<lparr>px = 2, py = 2\<rparr>, \<lparr>px = 1, py = 2\<rparr>] \<and>
   noThreeCollinear [\<lparr>px = 2, py = 2\<rparr>, \<lparr>px = 1, py = 1\<rparr>, \<lparr>px = 1, py = 2\<rparr>, \<lparr>px = 2, py = 4\<rparr>] \<and>
   computeCssMatrix [\<lparr>px = 1, py = 1\<rparr>, \<lparr>px = 2, py = 1\<rparr>, \<lparr>px = 2, py = 2\<rparr>, \<lparr>px = 1, py = 2\<rparr>]
     [\<lparr>px = 2, py = 2\<rparr>, \<lparr>px = 1, py = 1\<rparr>, \<lparr>px = 1, py = 2\<rparr>, \<lparr>px = 2, py = 4\<rparr>] =
     Inr (Matrix3d [NaN, NaN, Fin 0, Infinity, NaN, Infinity, Fin 0, NaN,
                    Fin 0, Fin 0, Fin 1, Fin 0, Infinity, NaN, Fin 0, NaN])"
proof -
  let ?S = "[\<lparr>px = 1, py = 1\<rparr>, \<lparr>px = 2, py = 1\<rparr>, \<lparr>px = 2, py = 2\<rparr>, \<lparr>px = 1, py = 2\<rparr>]"
  let ?D = "[\<lparr>px = 2, py = 2\<rparr>, \<lparr>px = 1, py = 1\<rparr>, \<lparr>px = 1, py = 2\<rparr>, \<lparr>px = 2, py = 4\<rparr>]"
  have s: "noThreeCollinear ?S" and d: "noThreeCollinear ?D"
    by (simp_all add: noThreeCollinear_def collinear3_def tri_def)
  have u: "unnormalized ?S ?D = Some [0, 0, - 2, 0, - 2, 0, - 1, 0, 0]"
    by (simp add: unnormalized_four collinear3_def tri_def scaled_def adj9 multmm9)
  have "computeCssMatrix ?S ?D =
     Inr (Matrix3d [NaN, NaN, Fin 0, Infinity, NaN, Infinity, Fin 0, NaN,
                    Fin 0, Fin 0, Fin 1, Fin 0, Infinity, NaN, Fin 0, NaN])"
    by (simp add: computeCssMatrix_four homography_def u normalize9)
  with s d show ?thesis by simp
qed

subsection \<open>Identity\<close>

lemma multmm_adj:
  "multmm [m0, m1, m2, m3, m4, m5, m6, m7, m8] (adj [m0, m1, m2, m3, m4, m5, m6, m7, m8]) =
     [det3 [m0, m1, m2, m3, m4, m5, m6, m7, m8], 0, 0,
      0, det3 [m0, m1, m2, m3, m4, m5, m6, m7, m8], 0,
      0, 0, det3 [m0, m1, m2, m3, m4, m5, m6, m7, m8]]"
  by (simp add: adj9 multmm9 det3_def algebra_simps)

lemma det3_scaled: "det3 (scaled p1 p2 p3 a0 a1 a2) = a0 * a1 * a2 * tri p1 p2 p3"
  by (simp add: det3_def scaled_def tri_def algebra_simps)

text \<open>
  Claim C4. When the source and the destination are the same quadrilateral, with no
  three collinear corners, the solver returns the identity matrix.
\<close>

theorem solver_identity:
  assumes "noThreeCollinear [q1, q2, q3, q4]"
  shows "homography [q1, q2, q3, q4] [q1, q2, q3, q4] = Some (map Fin [1, 0, 0, 0, 1, 0, 0, 0, 1]) \<and>
     computeCssMatrix [q1, q2, q3, q4] [q1, q2, q3, q4] =
       Inr (Matrix3d [Fin 1, Fin 0, Fin 0, Fin 0,
                      Fin 0, Fin 1, Fin 0, Fin 0,
                      Fin 0, Fin 0, Fin 1, Fin 0,
                      Fin 0, Fin 0, Fin 0, Fin 1])"
proof -
  note t = noThreeCollinear_tri [OF assms]
  define a0 a1 a2 where "a0 = tri q4 q2 q3 / tri q1 q2 q3" and "a1 = tri q1 q4 q3 / tri q1 q2 q3"
    and "a2 = tri q1 q2 q4 / tri q1 q2 q3"
  define B where "B = scaled q1 q2 q3 a0 a1 a2"
  define d where "d = det3 B"
  have "d = a0 * a1 * a2 * tri q1 q2 q3" by (simp add: d_def B_def det3_scaled)
  with t have d: "d \<noteq> 0" by (simp add: a0_def a1_def a2_def)
  have "multmm B (adj B) = [d, 0, 0, 0, d, 0, 0, 0, d]"
    unfolding d_def B_def scaled_def by (rule multmm_adj)
  with t(1) have u: "unnormalized [q1, q2, q3, q4] [q1, q2, q3, q4] = Some [d, 0, 0, 0, d, 0, 0, 0, d]"
    by (simp add: unnormalized_four collinear3_def B_def a0_def a1_def a2_def)
  with d have h: "homography [q1, q2, q3, q4] [q1, q2, q3, q4] =
      Some (map Fin [1, 0, 0, 0, 1, 0, 0, 0, 1])"
    by (simp add: homography_def normalize9)
  then show ?thesis by (simp add: computeCssMatrix_four)
qed

theorem solver_identity_witness:
  "noThreeCollinear [\<lparr>px = 0, py = 0\<rparr>, \<lparr>px = 200, py = 0\<rparr>, \<lparr>px = 180, py = 90\<rparr>, \<lparr>px = 10, py = 100\<rparr>] \<and>
   computeCssMatrix [\<lparr>px = 0, py = 0\<rparr>, \<lparr>px = 200, py = 0\<rparr>, \<lparr>px = 180, py = 90\<rparr>, \<lparr>px = 10, py = 100\<rparr>]
       [\<lparr>px = 0, py = 0\<rparr>, \<lparr>px = 200, py = 0\<rparr>, \<lparr>px = 180, py = 90\<rparr>, \<lparr>px = 10, py = 100\<rparr>] =
     Inr (Matrix3d [Fin 1, Fin 0, Fin 0, Fin 0,
                    Fin 0, Fin 1, Fin 0, Fin 0,
                    Fin 0, Fin 0, Fin 1, Fin 0,
                    Fin 0, Fin 0, Fin 0, Fin 1])"
proof -
  have q: "noThreeCollinear [\<lparr>px = 0, py = 0\<rparr>, \<lparr>px = 200, py = 0\<rparr>, \<lparr>px = 180, py = 90\<rparr>, \<lparr>px = 10, py = 100\<rparr>]"
    by (simp add: noThreeCollinear_def collinear3_def tri_def)
  from q solver_identity [OF q] show ?thesis by simp
qed

subsection \<open>Adjugate and inverse\<close>

lemma multmm_inverse3:
  "multmm b (inverse3 a) = map (\<lambda>v. v / det3 a) (multmm b (adj a))"
  by (simp add: multmm_nth [of b] inverse3_def adj_def add_divide_distrib)


text \<open>\<open>inverse3\<close> is the inverse.\<close>

lemma inverse3_inverse:
  assumes "length a = 9" and "det3 a \<noteq> 0"
  shows "multmm a (inverse3 a) = [1, 0, 0, 0, 1, 0, 0, 0, 1]"
proof -
  obtain a0 a1 a2 a3 a4 a5 a6 a7 a8 where a: "a = [a0, a1, a2, a3, a4, a5, a6, a7, a8]"
    using list9 [OF assms(1)] by blast
  from assms(2) show ?thesis
    unfolding multmm_inverse3 unfolding a multmm_adj by simp
qed



subsection \<open>The matrix3d embedding\<close>

lemma homography_length: "homography srcPoints dstPoints = Some m3 \<Longrightarrow> length m3 = 9"
  by (auto simp: homography_def unnormalized_def length_normalize_from length_multmm
        split: option.splits)

text \<open>
  Claim C6. When \<open>computeCssMatrix\<close> returns a matrix, its sixteen entries in
  column-major order are the normalised 3x3 entries placed around the third row and
  third column of the identity: the entries at positions 2, 6, 8, 9, 11 and 14 are 0,
  the entry at position 10 is 1, the third row of the 3x3 matrix (the perspective
  terms) is at positions 3, 7 and 15, the fourth row, and its third column at
  positions 12, 13 and 15, the fourth column.
\<close>

theorem matrix3d_embedding:
  assumes "computeCssMatrix srcPoints dstPoints = Inr (Matrix3d xs)"
  shows "\<exists>m3. homography srcPoints dstPoints = Some m3 \<and> length m3 = 9 \<and> length xs = 16 \<and>
     xs ! 0 = m3 ! 0 \<and> xs ! 1 = m3 ! 3 \<and> xs ! 2 = Fin 0 \<and> xs ! 3 = m3 ! 6 \<and>
     xs ! 4 = m3 ! 1 \<and> xs ! 5 = m3 ! 4 \<and> xs ! 6 = Fin 0 \<and> xs ! 7 = m3 ! 7 \<and>
     xs ! 8 = Fin 0 \<and> xs ! 9 = Fin 0 \<and> xs ! 10 = Fin 1 \<and> xs ! 11 = Fin 0 \<and>
     xs ! 12 = m3 ! 2 \<and> xs ! 13 = m3 ! 5 \<and> xs ! 14 = Fin 0 \<and> xs ! 15 = m3 ! 8"
proof -
  from assms have len: "4 \<le> length srcPoints" "4 \<le> length dstPoints"
    by (auto simp: computeCssMatrix_def split: if_splits)
  from assms obtain m3 where h: "homography srcPoints dstPoints = Some m3"
    and xs: "xs = [m3 ! 0, m3 ! 3, Fin 0, m3 ! 6, m3 ! 1, m3 ! 4, Fin 0, m3 ! 7,
                   Fin 0, Fin 0, Fin 1, Fin 0, m3 ! 2, m3 ! 5, Fin 0, m3 ! 8]"
    unfolding computeCssMatrix_four [OF len] by (auto split: option.splits)
  from h have "length m3 = 9" by (rule homography_length)
  with h xs show ?thesis by simp
qed

theorem matrix3d_embedding_witness:
  "computeCssMatrix [\<lparr>px = 0, py = 0\<rparr>, \<lparr>px = 200, py = 0\<rparr>, \<lparr>px = 200, py = 100\<rparr>, \<lparr>px = 0, py = 100\<rparr>]
     [\<lparr>px = 0, py = 0\<rparr>, \<lparr>px = 180, py = 20\<rparr>, \<lparr>px = 200, py = 100\<rparr>, \<lparr>px = 0, py = 100\<rparr>] =
     Inr (Matrix3d [Fin (9 / 8), Fin (1 / 8), Fin 0, Fin (1 / 800), Fin 0, Fin (7 / 8), Fin 0,
                    Fin (- (1 / 800)), Fin 0, Fin 0, Fin 1, Fin 0, Fin 0, Fin 0, Fin 0, Fin 1]) \<and>
   (\<exists>m3. homography [\<lparr>px = 0, py = 0\<rparr>, \<lparr>px = 200, py = 0\<rparr>, \<lparr>px = 200, py = 100\<rparr>, \<lparr>px = 0, py = 100\<rparr>]
     [\<lparr>px = 0, py = 0\<rparr>, \<lparr>px = 180, py = 20\<rparr>, \<lparr>px = 200, py = 100\<rparr>, \<lparr>px = 0, py = 100\<rparr>] = Some m3 \<and>
     m3 ! 6 = Fin (1 / 800) \<and> m3 ! 7 = Fin (- (1 / 800)) \<and> m3 ! 8 = Fin 1)"
proof -
  let ?S = "[\<lparr>px = 0, py = 0\<rparr>, \<lparr>px = 200, py = 0\<rparr>, \<lparr>px = 200, py = 100\<rparr>, \<lparr>px = 0, py = 100\<rparr>]"
  let ?D = "[\<lparr>px = 0, py = 0\<rparr>, \<lparr>px = 180, py = 20\<rparr>, \<lparr>px = 200, py = 100\<rparr>, \<lparr>px = 0, py = 100\<rparr>]"
  have c: "computeCssMatrix ?S ?D =
     Inr (Matrix3d [Fin (9 / 8), Fin (1 / 8), Fin 0, Fin (1 / 800), Fin 0, Fin (7 / 8), Fin 0,
                    Fin (- (1 / 800)), Fin 0, Fin 0, Fin 1, Fin 0, Fin 0, Fin 0, Fin 0, Fin 1])"
    by (simp add: computeCssMatrix_four homography_def unnormalized_four collinear3_def tri_def
          scaled_def adj9 multmm9 normalize9)
  from matrix3d_embedding [OF c] c show ?thesis by auto
qed

subsection \<open>Degenerate inputs\<close>

lemma computeCssMatrix_Empty_iff:
  "computeCssMatrix [s1, s2, s3, s4] [d1, d2, d3, d4] = Inr Empty \<longleftrightarrow>
     collinear3 s1 s2 s3 \<or> collinear3 d1 d2 d3"
  by (simp add: computeCssMatrix_four homography_def unnormalized_four)

text \<open>
  Claim C3 as stated fails: for the rectangle of a 256 by 128 container and a
  destination whose last two corners coincide, the bottom-right entry of the product
  is zero, and \<open>computeCssMatrix\<close> returns a matrix with entries that are not finite.
\<close>

theorem normalisation_counterexample:
  "unnormalized [\<lparr>px = 0, py = 0\<rparr>, \<lparr>px = 256, py = 0\<rparr>, \<lparr>px = 256, py = 128\<rparr>, \<lparr>px = 0, py = 128\<rparr>]
     [\<lparr>px = 0, py = 0\<rparr>, \<lparr>px = 256, py = 0\<rparr>, \<lparr>px = 256, py = 128\<rparr>, \<lparr>px = 256, py = 128\<rparr>] =
     Some [0, - 65536, 0, 0, - 32768, 0, 0, - 256, 0] \<and>
   computeCssMatrix [\<lparr>px = 0, py = 0\<rparr>, \<lparr>px = 256, py = 0\<rparr>, \<lparr>px = 256, py = 128\<rparr>, \<lparr>px = 0, py = 128\<rparr>]
     [\<lparr>px = 0, py = 0\<rparr>, \<lparr>px = 256, py = 0\<rparr>, \<lparr>px = 256, py = 128\<rparr>, \<lparr>px = 256, py = 128\<rparr>] =
     Inr (Matrix3d [NaN, NaN, Fin 0, NaN, Infinity, Infinity, Fin 0, Infinity,
                    Fin 0, Fin 0, Fin 1, Fin 0, NaN, NaN, Fin 0, NaN])"
proof -
  let ?S = "[\<lparr>px = 0, py = 0\<rparr>, \<lparr>px = 256, py = 0\<rparr>, \<lparr>px = 256, py = 128\<rparr>, \<lparr>px = 0, py = 128\<rparr>]"
  let ?D = "[\<lparr>px = 0, py = 0\<rparr>, \<lparr>px = 256, py = 0\<rparr>, \<lparr>px = 256, py = 128\<rparr>, \<lparr>px = 256, py = 128\<rparr>]"
  have u: "unnormalized ?S ?D = Some [0, - 65536, 0, 0, - 32768, 0, 0, - 256, 0]"
    by (simp add: unnormalized_four collinear3_def tri_def scaled_def adj9 multmm9)
  then show ?thesis
    by (simp add: computeCssMatrix_four homography_def normalize9)
qed

text \<open>
  Claim C3, as amended. The solver does not test the bottom-right entry before it
  normalises. Whenever both calls of \<open>basisToPoints\<close> return an array, it passes the
  product \<open>m3\<close> to the normalisation loop and returns the resulting matrix. For every
  array \<open>m3\<close> of nine numbers, the entries of that matrix are the entries of \<open>m3\<close>, each
  divided by \<open>m3[8]\<close>; when \<open>m3[8]\<close> is zero its last entry is \<open>NaN\<close>, so the solver can
  return a matrix with entries that are not finite.
\<close>

theorem normalisation_unchecked:
  "(\<forall>m3. unnormalized [s1, s2, s3, s4] [d1, d2, d3, d4] = Some m3 \<longrightarrow>
      computeCssMatrix [s1, s2, s3, s4] [d1, d2, d3, d4] = Inr (normalizeAndEmbed m3)) \<and>
   (\<forall>m3. length m3 = 9 \<longrightarrow>
      (\<exists>xs. normalizeAndEmbed m3 = Matrix3d xs \<and>
         xs = [jdiv (Fin (m3 ! 0)) (Fin (m3 ! 8)), jdiv (Fin (m3 ! 3)) (Fin (m3 ! 8)), Fin 0,
               jdiv (Fin (m3 ! 6)) (Fin (m3 ! 8)),
               jdiv (Fin (m3 ! 1)) (Fin (m3 ! 8)), jdiv (Fin (m3 ! 4)) (Fin (m3 ! 8)), Fin 0,
               jdiv (Fin (m3 ! 7)) (Fin (m3 ! 8)),
               Fin 0, Fin 0, Fin 1, Fin 0,
               jdiv (Fin (m3 ! 2)) (Fin (m3 ! 8)), jdiv (Fin (m3 ! 5)) (Fin (m3 ! 8)), Fin 0,
               jdiv (Fin (m3 ! 8)) (Fin (m3 ! 8))] \<and>
         (m3 ! 8 = 0 \<longrightarrow> xs ! 15 = NaN \<and> \<not> isFinite (xs ! 15))))"
proof (intro conjI allI impI)
  fix m3 assume "unnormalized [s1, s2, s3, s4] [d1, d2, d3, d4] = Some m3"
  then show "computeCssMatrix [s1, s2, s3, s4] [d1, d2, d3, d4] = Inr (normalizeAndEmbed m3)"
    by (simp add: computeCssMatrix_four homography_def normalizeAndEmbed_def Let_def)
next
  fix m3 :: "real list" assume "length m3 = 9"
  then obtain m0 m1 m2 m3' m4 m5 m6 m7 m8 where m: "m3 = [m0, m1, m2, m3', m4, m5, m6, m7, m8]"
    using list9 by blast
  show "\<exists>xs. normalizeAndEmbed m3 = Matrix3d xs \<and>
         xs = [jdiv (Fin (m3 ! 0)) (Fin (m3 ! 8)), jdiv (Fin (m3 ! 3)) (Fin (m3 ! 8)), Fin 0,
               jdiv (Fin (m3 ! 6)) (Fin (m3 ! 8)),
               jdiv (Fin (m3 ! 1)) (Fin (m3 ! 8)), jdiv (Fin (m3 ! 4)) (Fin (m3 ! 8)), Fin 0,
               jdiv (Fin (m3 ! 7)) (Fin (m3 ! 8)),
               Fin 0, Fin 0, Fin 1, Fin 0,
               jdiv (Fin (m3 ! 2)) (Fin (m3 ! 8)), jdiv (Fin (m3 ! 5)) (Fin (m3 ! 8)), Fin 0,
               jdiv (Fin (m3 ! 8)) (Fin (m3 ! 8))] \<and>
         (m3 ! 8 = 0 \<longrightarrow> xs ! 15 = NaN \<and> \<not> isFinite (xs ! 15))"
    by (simp add: normalizeAndEmbed_def m normalize9 del: jdiv.simps) simp
qed

theorem normalisation_unchecked_witness:
  "unnormalized [\<lparr>px = 0, py = 0\<rparr>, \<lparr>px = 256, py = 0\<rparr>, \<lparr>px = 256, py = 128\<rparr>, \<lparr>px = 0, py = 128\<rparr>]
     [\<lparr>px = 0, py = 0\<rparr>, \<lparr>px = 256, py = 0\<rparr>, \<lparr>px = 256, py = 128\<rparr>, \<lparr>px = 256, py = 128\<rparr>] =
     Some [0, - 65536, 0, 0, - 32768, 0, 0, - 256, 0] \<and>
   length [0, - 65536, 0, 0, - 32768, 0, 0, - 256, 0 :: real] = 9 \<and>
   [0, - 65536, 0, 0, - 32768, 0, 0, - 256, 0 :: real] ! 8 = 0 \<and>
   (\<exists>xs. computeCssMatrix [\<lparr>px = 0, py = 0\<rparr>, \<lparr>px = 256, py = 0\<rparr>, \<lparr>px = 256, py = 128\<rparr>, \<lparr>px = 0, py = 128\<rparr>]
     [\<lparr>px = 0, py = 0\<rparr>, \<lparr>px = 256, py = 0\<rparr>, \<lparr>px = 256, py = 128\<rparr>, \<lparr>px = 256, py = 128\<rparr>] =
       Inr (Matrix3d xs) \<and> xs ! 15 = NaN)"
proof -
  let ?S = "[\<lparr>px = 0, py = 0\<rparr>, \<lparr>px = 256, py = 0\<rparr>, \<lparr>px = 256, py = 128\<rparr>, \<lparr>px = 0, py = 128\<rparr>]"
  let ?D = "[\<lparr>px = 0, py = 0\<rparr>, \<lparr>px = 256, py = 0\<rparr>, \<lparr>px = 256, py = 128\<rparr>, \<lparr>px = 256, py = 128\<rparr>]"
  let ?m = "[0, - 65536, 0, 0, - 32768, 0, 0, - 256, 0 :: real]"
  have u: "unnormalized ?S ?D = Some ?m"
    by (simp add: unnormalized_four collinear3_def tri_def scaled_def adj9 multmm9)
  have l: "length ?m = 9" and z: "?m ! 8 = 0" by simp_all
  note t = normalisation_unchecked [of "\<lparr>px = 0, py = 0\<rparr>" "\<lparr>px = 256, py = 0\<rparr>"
      "\<lparr>px = 256, py = 128\<rparr>" "\<lparr>px = 0, py = 128\<rparr>" "\<lparr>px = 0, py = 0\<rparr>" "\<lparr>px = 256, py = 0\<rparr>"
      "\<lparr>px = 256, py = 128\<rparr>" "\<lparr>px = 256, py = 128\<rparr>"]
  from conjunct1 [OF t] u have c: "computeCssMatrix ?S ?D = Inr (normalizeAndEmbed ?m)"
    by blast
  from conjunct2 [OF t] l z obtain xs where "normalizeAndEmbed ?m = Matrix3d xs" "xs ! 15 = NaN"
    by blast
  with c have "\<exists>xs. computeCssMatrix ?S ?D = Inr (Matrix3d xs) \<and> xs ! 15 = NaN"
    by simp
  with u l z show ?thesis by blast
qed

section \<open>Recomputation after a move\<close>

lemma srcCorners_not_collinear:
  assumes "rect_width rect \<noteq> 0" and "rect_height rect \<noteq> 0"
  shows "\<not> collinear3 (srcCorners rect ! 0) (srcCorners rect ! 1) (srcCorners rect ! 2)"
  using assms by (simp add: srcCorners_def collinear3_def tri_def)

lemma source_rectangle_Empty_iff:
  assumes "rect_width rect \<noteq> 0" and "rect_height rect \<noteq> 0"
  shows "computeCssMatrix (srcCorners rect) (dstCorners pts) = Inr Empty \<longleftrightarrow>
     collinear3 (topLeft pts) (topRight pts) (bottomRight pts)"
  using srcCorners_not_collinear [OF assms]
  by (simp add: srcCorners_def dstCorners_def computeCssMatrix_Empty_iff)

text \<open>
  Claim C2 as stated fails: a session holds the identity matrix, which is what the
  solver computes for its points; dragging \<open>bottomRight\<close> onto the line through
  \<open>topLeft\<close> and \<open>topRight\<close> makes the solver return the empty string, and the matrix
  effect stores that empty string in place of the matrix.
\<close>

theorem degenerate_move_counterexample:
  "computeCssMatrix
     (srcCorners \<lparr>rect_left = 0, rect_top = 0, rect_width = 256, rect_height = 128\<rparr>)
     (dstCorners \<lparr>topLeft = \<lparr>px = 0, py = 0\<rparr>, topRight = \<lparr>px = 256, py = 0\<rparr>,
        bottomRight = \<lparr>px = 256, py = 128\<rparr>, bottomLeft = \<lparr>px = 0, py = 128\<rparr>\<rparr>) =
     Inr (Matrix3d [Fin 1, Fin 0, Fin 0, Fin 0, Fin 0, Fin 1, Fin 0, Fin 0,
                    Fin 0, Fin 0, Fin 1, Fin 0, Fin 0, Fin 0, Fin 0, Fin 1]) \<and>
   computeCssMatrix
     (srcCorners \<lparr>rect_left = 0, rect_top = 0, rect_width = 256, rect_height = 128\<rparr>)
     (dstCorners (points (onMove
        (Some \<lparr>rect_left = 0, rect_top = 0, rect_width = 256, rect_height = 128\<rparr>)
        \<lparr>topLeft = \<lparr>px = 0, py = 0\<rparr>, topRight = \<lparr>px = 256, py = 0\<rparr>,
          bottomRight = \<lparr>px = 256, py = 128\<rparr>, bottomLeft = \<lparr>px = 0, py = 128\<rparr>\<rparr>
        BottomRight 512 0
        \<lparr>points = \<lparr>topLeft = \<lparr>px = 0, py = 0\<rparr>, topRight = \<lparr>px = 256, py = 0\<rparr>,
            bottomRight = \<lparr>px = 256, py = 128\<rparr>, bottomLeft = \<lparr>px = 0, py = 128\<rparr>\<rparr>,
          hasHydrated = False,
          matrix = Matrix3d [Fin 1, Fin 0, Fin 0, Fin 0, Fin 0, Fin 1, Fin 0, Fin 0,
                    Fin 0, Fin 0, Fin 1, Fin 0, Fin 0, Fin 0, Fin 0, Fin 1]\<rparr>))) = Inr Empty \<and>
   matrix (matrixEffect
     (Some \<lparr>rect_left = 0, rect_top = 0, rect_width = 256, rect_height = 128\<rparr>)
     (onMove
        (Some \<lparr>rect_left = 0, rect_top = 0, rect_width = 256, rect_height = 128\<rparr>)
        \<lparr>topLeft = \<lparr>px = 0, py = 0\<rparr>, topRight = \<lparr>px = 256, py = 0\<rparr>,
          bottomRight = \<lparr>px = 256, py = 128\<rparr>, bottomLeft = \<lparr>px = 0, py = 128\<rparr>\<rparr>
        BottomRight 512 0
        \<lparr>points = \<lparr>topLeft = \<lparr>px = 0, py = 0\<rparr>, topRight = \<lparr>px = 256, py = 0\<rparr>,
            bottomRight = \<lparr>px = 256, py = 128\<rparr>, bottomLeft = \<lparr>px = 0, py = 128\<rparr>\<rparr>,
          hasHydrated = False,
          matrix = Matrix3d [Fin 1, Fin 0, Fin 0, Fin 0, Fin 0, Fin 1, Fin 0, Fin 0,
                    Fin 0, Fin 0, Fin 1, Fin 0, Fin 0, Fin 0, Fin 0, Fin 1]\<rparr>)) = Empty"
proof -
  let ?R = "\<lparr>rect_left = 0, rect_top = 0, rect_width = 256, rect_height = 128\<rparr>"
  have nz: "rect_width ?R \<noteq> 0" "rect_height ?R \<noteq> 0" by simp_all
  let ?P = "\<lparr>topLeft = \<lparr>px = 0, py = 0\<rparr>, topRight = \<lparr>px = 256, py = 0\<rparr>,
        bottomRight = \<lparr>px = 256, py = 128\<rparr>, bottomLeft = \<lparr>px = 0, py = 128\<rparr>\<rparr>"
  have 1: "computeCssMatrix (srcCorners ?R) (dstCorners ?P) =
     Inr (Matrix3d [Fin 1, Fin 0, Fin 0, Fin 0, Fin 0, Fin 1, Fin 0, Fin 0,
                    Fin 0, Fin 0, Fin 1, Fin 0, Fin 0, Fin 0, Fin 0, Fin 1])"
    by (simp add: srcCorners_def dstCorners_def computeCssMatrix_four homography_def
          unnormalized_four collinear3_def tri_def scaled_def adj9 multmm9 normalize9)
  have c: "collinear3 \<lparr>px = 0, py = 0\<rparr> \<lparr>px = 256, py = 0\<rparr> \<lparr>px = 512, py = 0\<rparr>"
    by (simp add: collinear3_def tri_def)
  have 2: "computeCssMatrix (srcCorners ?R) (dstCorners (?P\<lparr>bottomRight := \<lparr>px = 512, py = 0\<rparr>\<rparr>)) = Inr Empty"
    unfolding source_rectangle_Empty_iff [OF nz] using c by simp
  from 1 2 show ?thesis
    by (simp add: onMove_def updatedPoints_def matrixEffect_def)
qed

text \<open>
  Claim C2, as amended. With a container of non-zero width and height, after a corner
  move the matrix effect stores whatever the solver returns; when the move makes the
  solver return the empty string, the matrix of the session after the matrix effect
  is the empty string: the earlier matrix is replaced.
\<close>

theorem degenerate_move_empties_matrix:
  assumes "rect_width rect \<noteq> 0" and "rect_height rect \<noteq> 0"
    and "st' = handleDrag st0 name (Some rect) clientX clientY st"
  shows "(\<exists>t. computeCssMatrix (srcCorners rect) (dstCorners (points st')) = Inr t \<and>
            matrix (matrixEffect (Some rect) st') = t) \<and>
         (computeCssMatrix (srcCorners rect) (dstCorners (points st')) = Inr Empty \<longrightarrow>
            matrix (matrixEffect (Some rect) st') = Empty)"
proof -
  have "4 \<le> length (srcCorners rect)" "4 \<le> length (dstCorners (points st'))"
    by (simp_all add: srcCorners_def dstCorners_def)
  from computeCssMatrix_four [OF this]
  obtain t where t: "computeCssMatrix (srcCorners rect) (dstCorners (points st')) = Inr t"
    by blast
  with assms(1,2) have "matrix (matrixEffect (Some rect) st') = t"
    by (simp add: matrixEffect_def)
  with t show ?thesis by simp
qed

theorem degenerate_move_empties_matrix_witness:
  "rect_width \<lparr>rect_left = 0, rect_top = 0, rect_width = 256, rect_height = 128\<rparr> \<noteq> 0 \<and>
   rect_height \<lparr>rect_left = 0, rect_top = 0, rect_width = 256, rect_height = 128\<rparr> \<noteq> 0 \<and>
   computeCssMatrix
     (srcCorners \<lparr>rect_left = 0, rect_top = 0, rect_width = 256, rect_height = 128\<rparr>)
     (dstCorners (points (handleDrag
        \<lparr>points = \<lparr>topLeft = \<lparr>px = 0, py = 0\<rparr>, topRight = \<lparr>px = 256, py = 0\<rparr>,
            bottomRight = \<lparr>px = 256, py = 128\<rparr>, bottomLeft = \<lparr>px = 0, py = 128\<rparr>\<rparr>,
          hasHydrated = False,
          matrix = Matrix3d [Fin 1, Fin 0, Fin 0, Fin 0, Fin 0, Fin 1, Fin 0, Fin 0,
                    Fin 0, Fin 0, Fin 1, Fin 0, Fin 0, Fin 0, Fin 0, Fin 1]\<rparr>
        BottomRight
        (Some \<lparr>rect_left = 0, rect_top = 0, rect_width = 256, rect_height = 128\<rparr>) 512 0
        \<lparr>points = \<lparr>topLeft = \<lparr>px = 0, py = 0\<rparr>, topRight = \<lparr>px = 256, py = 0\<rparr>,
            bottomRight = \<lparr>px = 256, py = 128\<rparr>, bottomLeft = \<lparr>px = 0, py = 128\<rparr>\<rparr>,
          hasHydrated = False,
          matrix = Matrix3d [Fin 1, Fin 0, Fin 0, Fin 0, Fin 0, Fin 1, Fin 0, Fin 0,
                    Fin 0, Fin 0, Fin 1, Fin 0, Fin 0, Fin 0, Fin 0, Fin 1]\<rparr>))) = Inr Empty \<and>
   matrix (matrixEffect
     (Some \<lparr>rect_left = 0, rect_top = 0, rect_width = 256, rect_height = 128\<rparr>)
     (handleDrag
        \<lparr>points = \<lparr>topLeft = \<lparr>px = 0, py = 0\<rparr>, topRight = \<lparr>px = 256, py = 0\<rparr>,
            bottomRight = \<lparr>px = 256, py = 128\<rparr>, bottomLeft = \<lparr>px = 0, py = 128\<rparr>\<rparr>,
          hasHydrated = False,
          matrix = Matrix3d [Fin 1, Fin 0, Fin 0, Fin 0, Fin 0, Fin 1, Fin 0, Fin 0,
                    Fin 0, Fin 0, Fin 1, Fin 0, Fin 0, Fin 0, Fin 0, Fin 1]\<rparr>
        BottomRight
        (Some \<lparr>rect_left = 0, rect_top = 0, rect_width = 256, rect_height = 128\<rparr>) 512 0
        \<lparr>points = \<lparr>topLeft = \<lparr>px = 0, py = 0\<rparr>, topRight = \<lparr>px = 256, py = 0\<rparr>,
            bottomRight = \<lparr>px = 256, py = 128\<rparr>, bottomLeft = \<lparr>px = 0, py = 128\<rparr>\<rparr>,
          hasHydrated = False,
          matrix = Matrix3d [Fin 1, Fin 0, Fin 0, Fin 0, Fin 0, Fin 1, Fin 0, Fin 0,
                    Fin 0, Fin 0, Fin 1, Fin 0, Fin 0, Fin 0, Fin 0, Fin 1]\<rparr>)) = Empty"
proof -
  let ?R = "\<lparr>rect_left = 0, rect_top = 0, rect_width = 256, rect_height = 128\<rparr>"
  let ?P = "\<lparr>topLeft = \<lparr>px = 0, py = 0\<rparr>, topRight = \<lparr>px = 256, py = 0\<rparr>,
        bottomRight = \<lparr>px = 256, py = 128\<rparr>, bottomLeft = \<lparr>px = 0, py = 128\<rparr>\<rparr>"
  let ?st = "\<lparr>points = ?P, hasHydrated = False,
          matrix = Matrix3d [Fin 1, Fin 0, Fin 0, Fin 0, Fin 0, Fin 1, Fin 0, Fin 0,
                    Fin 0, Fin 0, Fin 1, Fin 0, Fin 0, Fin 0, Fin 0, Fin 1]\<rparr>"
  have nz: "rect_width ?R \<noteq> 0" "rect_height ?R \<noteq> 0" by simp_all
  have c: "collinear3 \<lparr>px = 0, py = 0\<rparr> \<lparr>px = 256, py = 0\<rparr> \<lparr>px = 512, py = 0\<rparr>"
    by (simp add: collinear3_def tri_def)
  have p: "points (handleDrag ?st BottomRight (Some ?R) 512 0 ?st) =
      ?P\<lparr>bottomRight := \<lparr>px = 512, py = 0\<rparr>\<rparr>"
    by (simp add: handleDrag_def onMove_def updatedPoints_def)
  have e: "computeCssMatrix (srcCorners ?R)
      (dstCorners (points (handleDrag ?st BottomRight (Some ?R) 512 0 ?st))) = Inr Empty"
    unfolding p source_rectangle_Empty_iff [OF nz] using c by simp
  from degenerate_move_empties_matrix [OF nz refl, of ?st BottomRight 512 0 ?st] e
  have "matrix (matrixEffect (Some ?R) (handleDrag ?st BottomRight (Some ?R) 512 0 ?st)) = Empty"
    by blast
  with nz e show ?thesis by blast
qed

section \<open>Auto-fit and dragging\<close>

text \<open>
  Claim C7 as stated fails: the auto-fit path does not put \<open>topLeft\<close> at the origin. In
  a component without \<open>points\<close> prop and storage key, after \<open>topLeft\<close> has been dragged to
  \<open>(7, 9)\<close> the auto-fit path is still active, and a measurement of 200 by 100 sets the
  other three corners and leaves \<open>topLeft\<close> at \<open>(7, 9)\<close>.
\<close>

theorem autofit_topLeft_counterexample:
  "autoFitActive \<lparr>controlledPoints = None, storageKey = None\<rparr>
     (Some \<lparr>rect_left = 0, rect_top = 0, rect_width = 200, rect_height = 100\<rparr>)
     (handleDrag (initialState \<lparr>controlledPoints = None, storageKey = None\<rparr>) TopLeft
        (Some \<lparr>rect_left = 0, rect_top = 0, rect_width = 200, rect_height = 100\<rparr>) 7 9
        (initialState \<lparr>controlledPoints = None, storageKey = None\<rparr>)) \<and>
   points (onResize \<lparr>controlledPoints = None, storageKey = None\<rparr>
     (Some \<lparr>rect_left = 0, rect_top = 0, rect_width = 200, rect_height = 100\<rparr>) 200 100
     (handleDrag (initialState \<lparr>controlledPoints = None, storageKey = None\<rparr>) TopLeft
        (Some \<lparr>rect_left = 0, rect_top = 0, rect_width = 200, rect_height = 100\<rparr>) 7 9
        (initialState \<lparr>controlledPoints = None, storageKey = None\<rparr>))) =
     \<lparr>topLeft = \<lparr>px = 7, py = 9\<rparr>, topRight = \<lparr>px = 200, py = 0\<rparr>,
      bottomRight = \<lparr>px = 200, py = 100\<rparr>, bottomLeft = \<lparr>px = 0, py = 100\<rparr>\<rparr>"
  by (simp add: autoFitActive_def onResize_def resizeCallback_def handleDrag_def onMove_def
        updatedPoints_def initialState_def defaultPoints_def)

text \<open>
  Claim C7, as amended. The auto-fit path is active exactly when the points are not
  controlled from outside, the load effect has not marked the component as hydrated
  and the container exists. A measurement with strictly positive width and height
  that arrives while it is active sets \<open>topRight\<close>, \<open>bottomRight\<close> and \<open>bottomLeft\<close> to
  \<open>(width, 0)\<close>, \<open>(width, height)\<close> and \<open>(0, height)\<close> and leaves \<open>topLeft\<close> at its previous
  value, whatever that is; a measurement with zero width or zero height, and any
  measurement while the path is not active, changes nothing.
\<close>

theorem autofit_three_corners:
  "(autoFitActive props container st \<longleftrightarrow>
      controlledPoints props = None \<and> \<not> hasHydrated st \<and> container \<noteq> None) \<and>
   (autoFitActive props container st \<and> 0 < w \<and> 0 < h \<longrightarrow>
      onResize props container w h st =
        st\<lparr>points :=
          \<lparr>topLeft = topLeft (points st), topRight = \<lparr>px = w, py = 0\<rparr>,
           bottomRight = \<lparr>px = w, py = h\<rparr>, bottomLeft = \<lparr>px = 0, py = h\<rparr>\<rparr>\<rparr>) \<and>
   (w = 0 \<or> h = 0 \<longrightarrow> onResize props container w h st = st) \<and>
   (\<not> autoFitActive props container st \<longrightarrow> onResize props container w h st = st)"
  by (simp add: autoFitActive_def onResize_def resizeCallback_def)

theorem autofit_three_corners_witness:
  "autoFitActive \<lparr>controlledPoints = None, storageKey = None\<rparr>
      (Some \<lparr>rect_left = 0, rect_top = 0, rect_width = 200, rect_height = 100\<rparr>)
      (initialState \<lparr>controlledPoints = None, storageKey = None\<rparr>) \<and>
   points (onResize \<lparr>controlledPoints = None, storageKey = None\<rparr>
      (Some \<lparr>rect_left = 0, rect_top = 0, rect_width = 200, rect_height = 100\<rparr>) 200 100
      (initialState \<lparr>controlledPoints = None, storageKey = None\<rparr>)) =
     \<lparr>topLeft = \<lparr>px = 0, py = 0\<rparr>, topRight = \<lparr>px = 200, py = 0\<rparr>,
      bottomRight = \<lparr>px = 200, py = 100\<rparr>, bottomLeft = \<lparr>px = 0, py = 100\<rparr>\<rparr> \<and>
   points (onResize \<lparr>controlledPoints = None, storageKey = None\<rparr>
      (Some \<lparr>rect_left = 0, rect_top = 0, rect_width = 200, rect_height = 100\<rparr>) 0 100
      (initialState \<lparr>controlledPoints = None, storageKey = None\<rparr>)) = defaultPoints \<and>
   \<not> autoFitActive \<lparr>controlledPoints = Some defaultPoints, storageKey = None\<rparr>
      (Some \<lparr>rect_left = 0, rect_top = 0, rect_width = 200, rect_height = 100\<rparr>)
      (initialState \<lparr>controlledPoints = Some defaultPoints, storageKey = None\<rparr>) \<and>
   points (onResize \<lparr>controlledPoints = Some defaultPoints, storageKey = None\<rparr>
      (Some \<lparr>rect_left = 0, rect_top = 0, rect_width = 200, rect_height = 100\<rparr>) 200 100
      (initialState \<lparr>controlledPoints = Some defaultPoints, storageKey = None\<rparr>)) = defaultPoints"
proof -
  let ?props = "\<lparr>controlledPoints = None, storageKey = None\<rparr>"
  let ?cprops = "\<lparr>controlledPoints = Some defaultPoints, storageKey = None\<rparr>"
  let ?c = "Some \<lparr>rect_left = 0, rect_top = 0, rect_width = 200, rect_height = 100\<rparr>"
  have a: "autoFitActive ?props ?c (initialState ?props)"
    by (simp add: autoFitActive_def initialState_def)
  have n: "\<not> autoFitActive ?cprops ?c (initialState ?cprops)"
    by (simp add: autoFitActive_def)
  from a n
    autofit_three_corners [of ?props ?c "initialState ?props" 200 100]
    autofit_three_corners [of ?props ?c "initialState ?props" 0 100]
    autofit_three_corners [of ?cprops ?c "initialState ?cprops" 200 100]
  show ?thesis
    by (simp add: initialState_def defaultPoints_def)
qed

text \<open>What \<open>onMove\<close> does to the points it holds.\<close>

lemma onMove_points:
  "points (onMove (Some rect) pts name clientX clientY st) =
      setCorner pts name \<lparr>px = clientX - rect_left rect, py = clientY - rect_top rect\<rparr> \<and>
   getCorner (points (onMove (Some rect) pts name clientX clientY st)) name =
      \<lparr>px = clientX - rect_left rect, py = clientY - rect_top rect\<rparr> \<and>
   (\<forall>c. c \<noteq> name \<longrightarrow>
      getCorner (points (onMove (Some rect) pts name clientX clientY st)) c = getCorner pts c)"
proof -
  have "getCorner (setCorner pts name p) c = (if c = name then p else getCorner pts c)" for p c
    by (cases name; cases c) simp_all
  then show ?thesis
    by (simp add: onMove_def updatedPoints_def)
qed

text \<open>
  Claim C8. A corner move should leave the other three corners at their prior values.
  \<open>onMove\<close> spreads the points of the render in which the drag began, not the points of
  the state at the time of the move: a drag of \<open>topLeft\<close> begins with the points fitted
  to a 200 by 100 container, the container grows to 300 by 150 and the auto-fit path
  moves \<open>bottomRight\<close> to \<open>(300, 150)\<close>, and the next mouse move puts \<open>topRight\<close>,
  \<open>bottomRight\<close> and \<open>bottomLeft\<close> back to their values for 200 by 100.
\<close>

theorem drag_reverts_other_corners:
  "bottomRight (points
     (onResize \<lparr>controlledPoints = None, storageKey = None\<rparr>
        (Some \<lparr>rect_left = 0, rect_top = 0, rect_width = 300, rect_height = 150\<rparr>) 300 150
        (onResize \<lparr>controlledPoints = None, storageKey = None\<rparr>
           (Some \<lparr>rect_left = 0, rect_top = 0, rect_width = 200, rect_height = 100\<rparr>) 200 100
           (initialState \<lparr>controlledPoints = None, storageKey = None\<rparr>)))) =
     \<lparr>px = 300, py = 150\<rparr> \<and>
   points
     (handleDrag
        (onResize \<lparr>controlledPoints = None, storageKey = None\<rparr>
           (Some \<lparr>rect_left = 0, rect_top = 0, rect_width = 200, rect_height = 100\<rparr>) 200 100
           (initialState \<lparr>controlledPoints = None, storageKey = None\<rparr>))
        TopLeft
        (Some \<lparr>rect_left = 0, rect_top = 0, rect_width = 300, rect_height = 150\<rparr>) 7 9
        (onResize \<lparr>controlledPoints = None, storageKey = None\<rparr>
           (Some \<lparr>rect_left = 0, rect_top = 0, rect_width = 300, rect_height = 150\<rparr>) 300 150
           (onResize \<lparr>controlledPoints = None, storageKey = None\<rparr>
              (Some \<lparr>rect_left = 0, rect_top = 0, rect_width = 200, rect_height = 100\<rparr>) 200 100
              (initialState \<lparr>controlledPoints = None, storageKey = None\<rparr>)))) =
     \<lparr>topLeft = \<lparr>px = 7, py = 9\<rparr>, topRight = \<lparr>px = 200, py = 0\<rparr>,
      bottomRight = \<lparr>px = 200, py = 100\<rparr>, bottomLeft = \<lparr>px = 0, py = 100\<rparr>\<rparr>"
  by (simp add: autoFitActive_def onResize_def resizeCallback_def handleDrag_def onMove_def
        updatedPoints_def initialState_def defaultPoints_def)

section \<open>Persistence\<close>





lemma step_controlled:
  assumes "controlledPoints props \<noteq> None" and "\<not> hasHydrated st"
  shows "snd (step env (props, container, ev) (st, ls)) = ls \<and>
         \<not> hasHydrated (fst (step env (props, container, ev) (st, ls)))"
  using assms
  by (cases ev)
     (auto simp: saveEffect_def controlledEffect_def loadEffect_def matrixEffect_def
        onResize_def onMove_def split: option.splits sum.splits)

lemma run_controlled:
  assumes "\<forall>e \<in> set evs. controlledPoints (fst e) \<noteq> None" and "\<not> hasHydrated st"
  shows "snd (run env evs (st, ls)) = ls \<and> \<not> hasHydrated (fst (run env evs (st, ls)))"
  using assms
proof (induction evs arbitrary: st)
  case Nil
  then show ?case by (simp add: run_def)
next
  case (Cons e evs)
  obtain props container ev where e: "e = (props, container, ev)" by (cases e)
  obtain st' ls' where s: "step env e (st, ls) = (st', ls')" by (cases "step env e (st, ls)")
  from Cons.prems e have "controlledPoints props \<noteq> None" by simp
  from step_controlled [OF this Cons.prems(2), of env container ev ls] s e
  have "ls' = ls" and "\<not> hasHydrated st'" by simp_all
  moreover from Cons.prems have "\<forall>e \<in> set evs. controlledPoints (fst e) \<noteq> None" by simp
  ultimately have "snd (run env evs (st', ls)) = ls \<and> \<not> hasHydrated (fst (run env evs (st', ls)))"
    using Cons.IH by blast
  with s \<open>ls' = ls\<close> show ?case by (simp add: run_def)
qed


text \<open>
  Claim C10 as stated fails: \<open>hasHydrated\<close> is never reset. A component that runs its load
  effect without the \<open>points\<close> prop and is given the prop afterwards writes the points
  it is given to the store.
\<close>

theorem controlled_writes_counterexample:
  "controlledPoints \<lparr>controlledPoints = Some defaultPoints, storageKey = Some ''k''\<rparr> \<noteq> None \<and>
   snd (run exampleEnv
          [(\<lparr>controlledPoints = None, storageKey = Some ''k''\<rparr>, None, LoadEffect),
           (\<lparr>controlledPoints = Some defaultPoints, storageKey = Some ''k''\<rparr>, None, ControlledEffect),
           (\<lparr>controlledPoints = Some defaultPoints, storageKey = Some ''k''\<rparr>, None, SaveEffect)]
          (initialState \<lparr>controlledPoints = None, storageKey = Some ''k''\<rparr>, Map.empty)) ''k'' =
     Some ''points''"
  by (simp add: run_def exampleEnv_def loadEffect_def acceptStored_def controlledEffect_def
        saveEffect_def initialState_def)

text \<open>
  Claim C10, as amended. In a run of the component in which every render since mount
  is given the \<open>points\<close> prop, whatever the storage key, the store is never written:
  \<open>hasHydrated\<close> stays false, since the load effect returns early, and the save effect
  writes only when it is true.
\<close>

theorem controlled_never_writes:
  assumes "\<forall>e \<in> set evs. controlledPoints (fst e) \<noteq> None"
  shows "snd (run env evs (initialState props, ls)) = ls \<and>
         \<not> hasHydrated (fst (run env evs (initialState props, ls)))"
  using assms by (intro run_controlled) (simp_all add: initialState_def)

theorem controlled_never_writes_witness:
  "controlledPoints \<lparr>controlledPoints = Some defaultPoints, storageKey = Some ''k''\<rparr> \<noteq> None \<and>
   snd (run \<lparr>JSON_parse = \<lambda>s. None, JSON_stringify = \<lambda>p. ''p'', asPoints = \<lambda>j. defaultPoints\<rparr>
          [(\<lparr>controlledPoints = Some defaultPoints, storageKey = Some ''k''\<rparr>, None, LoadEffect),
           (\<lparr>controlledPoints = Some defaultPoints, storageKey = Some ''k''\<rparr>, None, SaveEffect)]
          (initialState \<lparr>controlledPoints = Some defaultPoints, storageKey = Some ''k''\<rparr>, Map.empty)) =
     Map.empty"
proof -
  let ?props = "\<lparr>controlledPoints = Some defaultPoints, storageKey = Some ''k''\<rparr>"
  let ?evs = "[(?props, None :: Rect option, LoadEffect), (?props, None, SaveEffect)]"
  have c: "controlledPoints ?props \<noteq> None" by simp
  then have h: "\<forall>e \<in> set ?evs. controlledPoints (fst e) \<noteq> None" by simp
  note w = controlled_never_writes [OF h,
      where env = "\<lparr>JSON_parse = \<lambda>s. None, JSON_stringify = \<lambda>p. ''p'', asPoints = \<lambda>j. defaultPoints\<rparr>"
        and props = ?props and ls = Map.empty]
  from c conjunct1 [OF w] show ?thesis by (rule conjI)
qed

end
